theory Spec2Isabelle
  imports Complex_Main
begin

section \<open>Data model of \<open>src/classes/DrawingHelper.js\<close>\<close>

text \<open>
  JavaScript numbers are modelled as real numbers (the coordinates of the data model are
  plane coordinates); \<open>NaN\<close>, the infinities and rounding are outside the model.
  Strings are byte strings, as a data URL is.
\<close>

datatype ToolTypes =
    TRANSFORM_REFERENCE | ADD_POINTS | DELETE_POINTS | EDIT_POINTS | EDIT_CONTROLS
  | EDIT_ORIGIN_POINT

datatype js_error = TypeError | RangeError

definition canvasWidth :: real where "canvasWidth = 1024"
definition canvasHeight :: real where "canvasHeight = 768"
definition markerSize :: real where "markerSize = 32"
definition originSize :: real where "originSize = 64"
definition originSizeHalf :: real where "originSizeHalf = originSize * 0.5"

text \<open>\<open>class Point\<close>, and the object literals \<open>{ x, y }\<close>: the fields \<open>x\<close> and \<open>y\<close>.\<close>

record Point =
  pt_x :: real
  pt_y :: real

definition new_Point :: "real \<Rightarrow> real \<Rightarrow> Point" where
  "new_Point x y = \<lparr>pt_x = x, pt_y = y\<rparr>"

definition distanceTo :: "Point \<Rightarrow> Point \<Rightarrow> real" where
  "distanceTo this point =
     (let a = pt_x this - pt_x point; b = pt_y this - pt_y point in sqrt (a * a + b * b))"

text \<open>
  \<open>class Control\<close>: \<open>points\<close> is an array of exactly two points, built by the
  constructor and never resized; \<open>point1\<close> is \<open>points[0]\<close>, \<open>point2\<close> is \<open>points[1]\<close>.
\<close>

record Control =
  point1 :: Point
  point2 :: Point

definition new_Control :: "real \<Rightarrow> real \<Rightarrow> real \<Rightarrow> real \<Rightarrow> Control" where
  "new_Control x1 y1 x2 y2 = \<lparr>point1 = new_Point x1 y1, point2 = new_Point x2 y2\<rparr>"

text \<open>The object literal \<open>{ x1, y1, x2, y2 }\<close> of the four coordinates of a control.\<close>

record ControlData =
  sc_x1 :: real
  sc_y1 :: real
  sc_x2 :: real
  sc_y2 :: real

text \<open>\<open>class CurveGroup\<close>; the field \<open>id\<close> is \<open>gid\<close> here.\<close>

record CurveGroup =
  points :: "Point list"
  controls :: "Control list"
  gid :: string

definition new_CurveGroup :: "string \<Rightarrow> CurveGroup" where
  "new_CurveGroup i = \<lparr>points = [], controls = [], gid = i\<rparr>"

text \<open>
  \<open>class ReferenceImage\<close>. Of the \<open>Image\<close> element the model keeps \<open>src\<close>, \<open>width\<close> and
  \<open>height\<close>.
\<close>

record ReferenceImage =
  ready :: bool
  data :: string
  image_src :: string
  image_width :: real
  image_height :: real
  offset :: Point
  scale :: real
  dragPosition :: Point
  moving :: bool
  scaling :: bool
  opacity :: real
  color :: string

text \<open>
  The calls on the 2D context \<open>ctx\<close> of the canvas: the methods with their arguments,
  and the assignments to \<open>globalAlpha\<close>, \<open>strokeStyle\<close>, \<open>fillStyle\<close> and
  \<open>lineWidth\<close>. \<open>DrawImage\<close> draws the reference image.
\<close>

datatype draw =
    ClearRect real real real real
  | SetGlobalAlpha real
  | SetStrokeStyle string
  | SetFillStyle string
  | SetLineWidth real
  | DrawImage real real real real
  | StrokeRect real real real real
  | FillRect real real real real
  | BeginPath
  | MoveTo real real
  | LineTo real real
  | BezierCurveTo real real real real real real
  | Stroke

text \<open>
  \<open>class DrawingHelper\<close>. Curve groups are objects: \<open>activeCurveGroup\<close> and the elements
  of \<open>curveGroups\<close> are references into \<open>heap\<close>, and \<open>next_ref\<close> is the next unused
  address. The module variables \<open>activeTool\<close> and \<open>mousePos\<close> are fields too, and so is
  what the code sends out: the texts passed to \<open>setMessage\<close> and to the console, newest
  last, whether \<open>MainLoop\<close> is running, and the calls on \<open>ctx\<close> of the last update
  pass.
\<close>

record DrawingHelper =
  heap :: "nat \<Rightarrow> CurveGroup"
  next_ref :: nat
  curveGroups :: "nat list"
  activeCurveGroup :: "nat option"
  originPos :: Point
  lineWidth :: real
  pointSize :: real
  pointSizeHalf :: real
  activeOpacity :: real
  inactiveOpacity :: real
  mainColor :: string
  controlColor :: string
  originColor :: string
  pointRange :: real
  pointRangeHalf :: real
  outputPrecision :: int
  dragStart :: "Point option"
  dragPoint :: "nat option"
  dragControl :: "(nat \<times> nat) option"
  dragOrigin :: bool
  reference :: ReferenceImage
  activeTool :: ToolTypes
  mousePos :: Point
  messages :: "string list"
  console :: "string list"
  mainLoopRunning :: bool
  canvas :: "draw list"

definition new_ReferenceImage :: ReferenceImage where
  "new_ReferenceImage =
     \<lparr>ready = False, data = [], image_src = [], image_width = 0, image_height = 0,
      offset = new_Point 0 0, scale = 1, dragPosition = new_Point 0 0, moving = False,
      scaling = False, opacity = 1, color = ''#ff0099''\<rparr>"

definition new_DrawingHelper :: DrawingHelper where
  "new_DrawingHelper =
     \<lparr>heap = (\<lambda>_. new_CurveGroup []), next_ref = 0, curveGroups = [],
      activeCurveGroup = None, originPos = new_Point 0 0, lineWidth = 2, pointSize = 16,
      pointSizeHalf = 16 * 0.5, activeOpacity = 1, inactiveOpacity = 1,
      mainColor = ''#ff0099'', controlColor = ''#ffffff'', originColor = ''#ffffff'',
      pointRange = 16, pointRangeHalf = 16 * 0.5, outputPrecision = 2, dragStart = None,
      dragPoint = None, dragControl = None, dragOrigin = False,
      reference = new_ReferenceImage, activeTool = TRANSFORM_REFERENCE,
      mousePos = new_Point 0 0, messages = [], console = [], mainLoopRunning = False,
      canvas = []\<rparr>"

text \<open>
  A state is well formed when its references are allocated and the collection holds each
  object once. \<open>groups_of\<close> reads the collection through the heap.
\<close>

definition wf_state :: "DrawingHelper \<Rightarrow> bool" where
  "wf_state h =
     (list_all (\<lambda>r. r < next_ref h) (curveGroups h) \<and> distinct (curveGroups h) \<and>
      (case activeCurveGroup h of None \<Rightarrow> True | Some r \<Rightarrow> r < next_ref h))"

definition groups_of :: "DrawingHelper \<Rightarrow> CurveGroup list" where
  "groups_of h = map (heap h) (curveGroups h)"

section \<open>Group commands\<close>

definition setMessage :: "string \<Rightarrow> DrawingHelper \<Rightarrow> DrawingHelper" where
  "setMessage m h = h\<lparr>messages := messages h @ [m]\<rparr>"

definition console_log :: "string \<Rightarrow> DrawingHelper \<Rightarrow> DrawingHelper" where
  "console_log m h = h\<lparr>console := console h @ [m]\<rparr>"

text \<open>\<open>new CurveGroup(id)\<close> allocates the object at the next unused address.\<close>

definition alloc :: "CurveGroup \<Rightarrow> DrawingHelper \<Rightarrow> nat \<times> DrawingHelper" where
  "alloc g h = (next_ref h, h\<lparr>heap := (heap h)(next_ref h := g), next_ref := Suc (next_ref h)\<rparr>)"

definition createGroup :: "string \<Rightarrow> DrawingHelper \<Rightarrow> DrawingHelper" where
  "createGroup i h =
     (let (newGroup, h1) = alloc (new_CurveGroup i) h;
          h2 = h1\<lparr>curveGroups := curveGroups h1 @ [newGroup]\<rparr>
      in h2\<lparr>activeCurveGroup := Some newGroup\<rparr>)"

text \<open>\<open>Array.prototype.find\<close>: the first element that satisfies the predicate.\<close>

definition setActiveGroupId :: "string \<Rightarrow> DrawingHelper \<Rightarrow> DrawingHelper" where
  "setActiveGroupId i h =
     (case List.find (\<lambda>group. gid (heap h group) = i) (curveGroups h) of
        Some foundGroup \<Rightarrow> h\<lparr>activeCurveGroup := Some foundGroup\<rparr>
      | None \<Rightarrow> console_log (''Unable to find curve group; Id: '' @ i) h)"

definition deleteGroup :: "string \<Rightarrow> DrawingHelper \<Rightarrow> DrawingHelper" where
  "deleteGroup i h =
     (let h1 = h\<lparr>curveGroups := filter (\<lambda>group. gid (heap h group) \<noteq> i) (curveGroups h)\<rparr>
      in case activeCurveGroup h1 of
           Some a \<Rightarrow> if gid (heap h1 a) = i then h1\<lparr>activeCurveGroup := None\<rparr> else h1
         | None \<Rightarrow> h1)"

definition deleteLastPoint :: "DrawingHelper \<Rightarrow> DrawingHelper" where
  "deleteLastPoint h =
     (case activeCurveGroup h of
        Some a \<Rightarrow>
          if length (points (heap h a)) > 0
          then h\<lparr>heap := (heap h)(a := (heap h a)
                  \<lparr>points := butlast (points (heap h a)),
                   controls := butlast (controls (heap h a))\<rparr>)\<rparr>
          else h
      | None \<Rightarrow> h)"

definition syncLastPoint :: "DrawingHelper \<Rightarrow> DrawingHelper" where
  "syncLastPoint h =
     (case activeCurveGroup h of
        Some a \<Rightarrow>
          let ps = points (heap h a) in
          if length ps > 1
          then let firstPoint = ps ! 0;
                   lastPoint = (ps ! (length ps - 1))\<lparr>pt_x := pt_x firstPoint, pt_y := pt_y firstPoint\<rparr>
               in h\<lparr>heap := (heap h)(a := (heap h a)\<lparr>points := ps[length ps - 1 := lastPoint]\<rparr>)\<rparr>
          else h
      | None \<Rightarrow> h)"

definition setActiveTool :: "ToolTypes \<Rightarrow> DrawingHelper \<Rightarrow> DrawingHelper" where
  "setActiveTool v h = h\<lparr>activeTool := v\<rparr>"

section \<open>Pointer input\<close>

text \<open>
  \<open>Math.atan2\<close> on the reals: the angle of the point \<open>(x, y)\<close> in \<open>(-\<pi>, \<pi>]\<close>, and \<open>0\<close> at
  the origin.
\<close>

definition atan2 :: "real \<Rightarrow> real \<Rightarrow> real" where
  "atan2 y x =
     (if x > 0 then arctan (y / x)
      else if x < 0 then (if y \<ge> 0 then arctan (y / x) + pi else arctan (y / x) - pi)
      else if y > 0 then pi / 2
      else if y < 0 then - (pi / 2)
      else 0)"

definition handleMouseMove :: "real \<Rightarrow> real \<Rightarrow> real \<Rightarrow> real \<Rightarrow> DrawingHelper \<Rightarrow> DrawingHelper" where
  "handleMouseMove clientX clientY rect_x rect_y h =
     h\<lparr>mousePos := \<lparr>pt_x = clientX - rect_x, pt_y = clientY - rect_y\<rparr>\<rparr>"

text \<open>\<open>ReferenceImage.onMouseDown\<close> and \<open>onMouseUp\<close> read the module variables.\<close>

definition ReferenceImage_onMouseDown :: "ToolTypes \<Rightarrow> Point \<Rightarrow> ReferenceImage \<Rightarrow> ReferenceImage" where
  "ReferenceImage_onMouseDown tool mouse this =
     (if \<not> ready this \<or> tool \<noteq> TRANSFORM_REFERENCE then this
      else
        let x = pt_x (offset this); y = pt_y (offset this);
            scaledWidth = image_width this * scale this;
            scaledHeight = image_height this * scale this
        in if pt_x mouse > x \<and> pt_x mouse < x + scaledWidth \<and>
              pt_y mouse > y \<and> pt_y mouse < y + scaledHeight
           then
             if (pt_x mouse < x + markerSize \<and> pt_y mouse < y + markerSize) \<or>
                (pt_x mouse > x + scaledWidth - markerSize \<and>
                 pt_y mouse > y + scaledHeight - markerSize)
             then this\<lparr>scaling := True, dragPosition := new_Point (pt_x mouse) (pt_y mouse)\<rparr>
             else this\<lparr>moving := True, dragPosition := new_Point (pt_x mouse) (pt_y mouse)\<rparr>
           else this)"

definition ReferenceImage_onMouseUp :: "Point \<Rightarrow> ReferenceImage \<Rightarrow> ReferenceImage" where
  "ReferenceImage_onMouseUp mouse this =
     (if \<not> ready this then this
      else if moving this \<or> scaling this then
        let deltaX = pt_x mouse - pt_x (dragPosition this);
            deltaY = pt_y mouse - pt_y (dragPosition this);
            this1 =
              (if moving this
               then this\<lparr>offset := (offset this)
                      \<lparr>pt_x := pt_x (offset this) + deltaX, pt_y := pt_y (offset this) + deltaY\<rparr>\<rparr>
               else if scaling this
               then this\<lparr>scale := max (scale this - deltaY * 0.01) 0.1\<rparr>
               else this)
        in this1\<lparr>moving := False, scaling := False\<rparr>
      else this)"

text \<open>The pick box of the edit tools: strictly within \<open>rng\<close> of the point on both axes.\<close>

definition inPickRange :: "real \<Rightarrow> real \<Rightarrow> real \<Rightarrow> Point \<Rightarrow> bool" where
  "inPickRange mouseX mouseY rng p =
     (mouseX > pt_x p - rng \<and> mouseX < pt_x p + rng \<and>
      mouseY > pt_y p - rng \<and> mouseY < pt_y p + rng)"

text \<open>
  The search loop of \<open>EDIT_POINTS\<close>, from index \<open>i\<close> over the points left: it stops at
  the first point in range.
\<close>

fun searchPoints :: "real \<Rightarrow> real \<Rightarrow> real \<Rightarrow> nat \<Rightarrow> Point list \<Rightarrow> nat option" where
  "searchPoints mouseX mouseY rng i [] = None"
| "searchPoints mouseX mouseY rng i (p # ps) =
     (if inPickRange mouseX mouseY rng p then Some i
      else searchPoints mouseX mouseY rng (Suc i) ps)"

text \<open>
  The inner loop of \<open>EDIT_CONTROLS\<close> over \<open>j = 0, 1\<close>: its \<open>break\<close> leaves this loop at
  the first endpoint of the control in range.
\<close>

definition searchEndpoints :: "real \<Rightarrow> real \<Rightarrow> real \<Rightarrow> Control \<Rightarrow> nat option" where
  "searchEndpoints mouseX mouseY rng c =
     (if inPickRange mouseX mouseY rng (point1 c) then Some 0
      else if inPickRange mouseX mouseY rng (point2 c) then Some 1
      else None)"

text \<open>
  The outer loop of \<open>EDIT_CONTROLS\<close>, from index \<open>i\<close> over the controls left, on the
  pair \<open>(dragControl, dragStart)\<close>: the inner \<open>break\<close> does not leave it, so it goes on
  to the last control and every control with an endpoint in range writes the pair.
\<close>

fun searchControls ::
  "real \<Rightarrow> real \<Rightarrow> real \<Rightarrow> nat \<Rightarrow> Control list \<Rightarrow> (nat \<times> nat) option \<times> Point option \<Rightarrow>
   (nat \<times> nat) option \<times> Point option" where
  "searchControls mouseX mouseY rng i [] drag = drag"
| "searchControls mouseX mouseY rng i (c # cs) drag =
     searchControls mouseX mouseY rng (Suc i) cs
       (case searchEndpoints mouseX mouseY rng c of
          Some j \<Rightarrow> (Some (i, j), Some \<lparr>pt_x = mouseX, pt_y = mouseY\<rparr>)
        | None \<Rightarrow> drag)"

text \<open>
  The control that \<open>ADD_POINTS\<close> makes from the last two points (\<open>points.slice(length - 2)\<close>)
  after the push. Fewer than two points cannot reach it: the caller has checked.
\<close>

definition synthControl :: "Point list \<Rightarrow> Control option" where
  "synthControl ps =
     (case drop (length ps - 2) ps of
        [p1, p2] \<Rightarrow>
          let angle = atan2 (pt_y p2 - pt_y p1) (pt_x p2 - pt_x p1);
              distance = distanceTo p1 p2;
              x1 = pt_x p1 + cos angle * distance * 0.2;
              y1 = pt_y p1 + sin angle * distance * 0.2;
              x2 = pt_x p1 + cos angle * distance * 0.8;
              y2 = pt_y p1 + sin angle * distance * 0.8
          in Some (new_Control x1 y1 x2 y2)
      | _ \<Rightarrow> None)"

definition reference_onMouseDown :: "DrawingHelper \<Rightarrow> DrawingHelper" where
  "reference_onMouseDown h =
     h\<lparr>reference := ReferenceImage_onMouseDown (activeTool h) (mousePos h) (reference h)\<rparr>"

definition reference_onMouseUp :: "DrawingHelper \<Rightarrow> DrawingHelper" where
  "reference_onMouseUp h = h\<lparr>reference := ReferenceImage_onMouseUp (mousePos h) (reference h)\<rparr>"

definition handleMouseDown :: "DrawingHelper \<Rightarrow> DrawingHelper" where
  "handleMouseDown h =
     (let mouseX = pt_x (mousePos h); mouseY = pt_y (mousePos h) in
      case activeTool h of
        ADD_POINTS \<Rightarrow>
          (case activeCurveGroup h of
             None \<Rightarrow>
               setMessage
                 ''Cannot add point; Please create or select a curve group before adding points.'' h
           | Some a \<Rightarrow>
               if mouseX < 0 \<or> mouseX > canvasWidth \<or> mouseY < 0 \<or> mouseY > canvasHeight
               then h
               else
                 let g = heap h a;
                     ps = points g @ [new_Point mouseX mouseY];
                     cs = (if length ps > 1
                           then (case synthControl ps of
                                   Some c \<Rightarrow> controls g @ [c] | None \<Rightarrow> controls g)
                           else controls g)
                 in reference_onMouseDown
                      (h\<lparr>heap := (heap h)(a := g\<lparr>points := ps, controls := cs\<rparr>)\<rparr>))
      | EDIT_POINTS \<Rightarrow>
          (case activeCurveGroup h of
             None \<Rightarrow> h
           | Some a \<Rightarrow>
               reference_onMouseDown
                 (case searchPoints mouseX mouseY (pointRangeHalf h) 0 (points (heap h a)) of
                    Some i \<Rightarrow> h\<lparr>dragPoint := Some i, dragStart := Some \<lparr>pt_x = mouseX, pt_y = mouseY\<rparr>\<rparr>
                  | None \<Rightarrow> h))
      | EDIT_CONTROLS \<Rightarrow>
          (case activeCurveGroup h of
             None \<Rightarrow> h
           | Some a \<Rightarrow>
               let drag = searchControls mouseX mouseY (pointRangeHalf h) 0 (controls (heap h a))
                            (dragControl h, dragStart h)
               in reference_onMouseDown (h\<lparr>dragControl := fst drag, dragStart := snd drag\<rparr>))
      | EDIT_ORIGIN_POINT \<Rightarrow>
          reference_onMouseDown
            (if mouseX > pt_x (originPos h) - originSizeHalf \<and>
                mouseX < pt_x (originPos h) + originSizeHalf \<and>
                mouseY > pt_y (originPos h) - originSizeHalf \<and>
                mouseY < pt_y (originPos h) + originSizeHalf
             then h\<lparr>dragOrigin := True, dragStart := Some \<lparr>pt_x = mouseX, pt_y = mouseY\<rparr>\<rparr>
             else h)
      | _ \<Rightarrow> reference_onMouseDown h)"

text \<open>
  \<open>handleMouseUp\<close> throws a \<open>TypeError\<close> where it reads a field of \<open>null\<close> or
  \<open>undefined\<close>: a drag target with no \<open>dragStart\<close>, or an index past the array. Each
  such read comes before the first write, so the state of a failed call is the state
  before.
\<close>

definition handleMouseUp :: "DrawingHelper \<Rightarrow> js_error + DrawingHelper" where
  "handleMouseUp h =
     (let mouseX = pt_x (mousePos h); mouseY = pt_y (mousePos h) in
      case activeTool h of
        EDIT_POINTS \<Rightarrow>
          (case (activeCurveGroup h, dragPoint h) of
             (Some a, Some i) \<Rightarrow>
               (case dragStart h of
                  None \<Rightarrow> Inl TypeError
                | Some s \<Rightarrow>
                    let deltaX = mouseX - pt_x s; deltaY = mouseY - pt_y s; g = heap h a in
                    if i < length (points g)
                    then
                      let point = points g ! i;
                          point' = point\<lparr>pt_x := pt_x point + deltaX, pt_y := pt_y point + deltaY\<rparr>
                      in Inr (reference_onMouseUp
                           (h\<lparr>heap := (heap h)(a := g\<lparr>points := (points g)[i := point']\<rparr>),
                              dragPoint := None, dragStart := None\<rparr>))
                    else Inl TypeError)
           | _ \<Rightarrow> Inr h)
      | EDIT_CONTROLS \<Rightarrow>
          (case (activeCurveGroup h, dragControl h) of
             (Some a, Some (controlIndex, pointIndex)) \<Rightarrow>
               (case dragStart h of
                  None \<Rightarrow> Inl TypeError
                | Some s \<Rightarrow>
                    let deltaX = mouseX - pt_x s; deltaY = mouseY - pt_y s; g = heap h a in
                    if controlIndex < length (controls g) \<and> pointIndex < 2
                    then
                      let control = controls g ! controlIndex;
                          control' =
                            (if pointIndex = 0
                             then control\<lparr>point1 := (point1 control)
                                    \<lparr>pt_x := pt_x (point1 control) + deltaX,
                                     pt_y := pt_y (point1 control) + deltaY\<rparr>\<rparr>
                             else control\<lparr>point2 := (point2 control)
                                    \<lparr>pt_x := pt_x (point2 control) + deltaX,
                                     pt_y := pt_y (point2 control) + deltaY\<rparr>\<rparr>)
                      in Inr (reference_onMouseUp
                           (h\<lparr>heap := (heap h)
                                (a := g\<lparr>controls := (controls g)[controlIndex := control']\<rparr>),
                              dragControl := None, dragStart := None\<rparr>))
                    else Inl TypeError)
           | _ \<Rightarrow> Inr h)
      | EDIT_ORIGIN_POINT \<Rightarrow>
          (if dragOrigin h
           then
             (case dragStart h of
                None \<Rightarrow> Inl TypeError
              | Some s \<Rightarrow>
                  let deltaX = mouseX - pt_x s; deltaY = mouseY - pt_y s in
                  Inr (reference_onMouseUp
                    (h\<lparr>originPos := (originPos h)
                         \<lparr>pt_x := pt_x (originPos h) + deltaX, pt_y := pt_y (originPos h) + deltaY\<rparr>,
                       dragOrigin := False, dragStart := None\<rparr>)))
           else Inr (reference_onMouseUp h))
      | _ \<Rightarrow> Inr (reference_onMouseUp h))"

section \<open>The update pass\<close>

text \<open>
  A piece of the pass: the calls it makes on \<open>ctx\<close>, and the exception that ended it,
  if one did. \<open>then_draw\<close> runs a second piece after a first that did not throw.
\<close>

type_synonym drawn = "draw list \<times> js_error option"

definition calls :: "draw list \<Rightarrow> drawn" where
  "calls cs = (cs, None)"

definition throws :: "js_error \<Rightarrow> drawn" where
  "throws e = ([], Some e)"

definition then_draw :: "drawn \<Rightarrow> drawn \<Rightarrow> drawn" where
  "then_draw a b = (case snd a of Some e \<Rightarrow> a | None \<Rightarrow> (fst a @ fst b, snd b))"

fun draw_all :: "drawn list \<Rightarrow> drawn" where
  "draw_all [] = calls []"
| "draw_all (d # ds) = then_draw d (draw_all ds)"

definition ReferenceImage_update :: "ToolTypes \<Rightarrow> Point \<Rightarrow> ReferenceImage \<Rightarrow> draw list" where
  "ReferenceImage_update tool mouse this =
     (if \<not> ready this then []
      else
        let deltaX = pt_x mouse - pt_x (dragPosition this);
            deltaY = pt_y mouse - pt_y (dragPosition this);
            x = (if moving this then pt_x (offset this) + deltaX else pt_x (offset this));
            y = (if moving this then pt_y (offset this) + deltaY else pt_y (offset this));
            scale' = (if \<not> moving this \<and> scaling this
                      then max (scale this - deltaY * 0.01) 0.1 else scale this);
            scaledWidth = image_width this * scale';
            scaledHeight = image_height this * scale'
        in [SetGlobalAlpha (opacity this), DrawImage x y scaledWidth scaledHeight,
            SetGlobalAlpha 1] @
           (if tool = TRANSFORM_REFERENCE
            then [SetStrokeStyle (color this), SetLineWidth 4,
                  StrokeRect (x + 2) (y + 2) (scaledWidth - 4) (scaledHeight - 4),
                  SetFillStyle (color this),
                  FillRect x y markerSize markerSize,
                  FillRect (x + scaledWidth - markerSize) (y + scaledHeight - markerSize)
                    markerSize markerSize]
            else []))"

text \<open>
  The position at which the pass draws point \<open>j\<close> of the active group: with the point
  tool and \<open>dragPoint === j\<close>, the stored position plus \<open>mousePos - dragStart\<close>. Reading
  \<open>dragStart.x\<close> of \<open>null\<close> throws.
\<close>

definition pointPreview :: "DrawingHelper \<Rightarrow> nat \<Rightarrow> Point \<Rightarrow> js_error + Point" where
  "pointPreview h j p =
     (if activeTool h = EDIT_POINTS \<and> dragPoint h = Some j
      then (case dragStart h of
              None \<Rightarrow> Inl TypeError
            | Some s \<Rightarrow>
                let deltaX = pt_x (mousePos h) - pt_x s; deltaY = pt_y (mousePos h) - pt_y s
                in Inr \<lparr>pt_x = pt_x p + deltaX, pt_y = pt_y p + deltaY\<rparr>)
      else Inr p)"

definition getEditControlPoints :: "DrawingHelper \<Rightarrow> Control \<Rightarrow> nat \<Rightarrow> js_error + ControlData" where
  "getEditControlPoints h c index =
     (let x1 = pt_x (point1 c); y1 = pt_y (point1 c);
          x2 = pt_x (point2 c); y2 = pt_y (point2 c) in
      case dragControl h of
        Some (controlIndex, pointIndex) \<Rightarrow>
          if controlIndex = index
          then (case dragStart h of
                  None \<Rightarrow> Inl TypeError
                | Some s \<Rightarrow>
                    let deltaX = pt_x (mousePos h) - pt_x s;
                        deltaY = pt_y (mousePos h) - pt_y s
                    in if pointIndex = 0
                       then Inr \<lparr>sc_x1 = x1 + deltaX, sc_y1 = y1 + deltaY, sc_x2 = x2, sc_y2 = y2\<rparr>
                       else Inr \<lparr>sc_x1 = x1, sc_y1 = y1, sc_x2 = x2 + deltaX, sc_y2 = y2 + deltaY\<rparr>)
          else Inr \<lparr>sc_x1 = x1, sc_y1 = y1, sc_x2 = x2, sc_y2 = y2\<rparr>
      | None \<Rightarrow> Inr \<lparr>sc_x1 = x1, sc_y1 = y1, sc_x2 = x2, sc_y2 = y2\<rparr>)"

text \<open>The position of the origin cross: the stored origin, plus the delta while dragged.\<close>

definition originPreview :: "DrawingHelper \<Rightarrow> js_error + Point" where
  "originPreview h =
     (if dragOrigin h
      then (case dragStart h of
              None \<Rightarrow> Inl TypeError
            | Some s \<Rightarrow>
                let deltaX = pt_x (mousePos h) - pt_x s; deltaY = pt_y (mousePos h) - pt_y s
                in Inr \<lparr>pt_x = pt_x (originPos h) + deltaX, pt_y = pt_y (originPos h) + deltaY\<rparr>)
      else Inr (originPos h))"

text \<open>
  The segment to point \<open>j > 0\<close> drawn from the stored control \<open>controls[j - 1]\<close>; reading
  \<open>points\<close> of a control that is not there throws.
\<close>

definition drawSegment :: "Control list \<Rightarrow> nat \<Rightarrow> real \<Rightarrow> real \<Rightarrow> drawn" where
  "drawSegment cs j x y =
     (if j - 1 < length cs
      then calls [BezierCurveTo (pt_x (point1 (cs ! (j - 1)))) (pt_y (point1 (cs ! (j - 1))))
                    (pt_x (point2 (cs ! (j - 1)))) (pt_y (point2 (cs ! (j - 1)))) x y]
      else throws TypeError)"

text \<open>The body of the loop over the points of a group, at index \<open>j\<close>.\<close>

definition drawPoint :: "DrawingHelper \<Rightarrow> bool \<Rightarrow> Control list \<Rightarrow> nat \<Rightarrow> Point \<Rightarrow> drawn" where
  "drawPoint h active cs j p =
     (if active
      then
        then_draw (calls [SetGlobalAlpha (activeOpacity h)])
          (case pointPreview h j p of
             Inl e \<Rightarrow> throws e
           | Inr q \<Rightarrow>
               then_draw
                 (calls (if activeTool h = ADD_POINTS \<or> activeTool h = EDIT_POINTS
                         then [FillRect (pt_x q - pointSizeHalf h) (pt_y q - pointSizeHalf h)
                                 (pointSize h) (pointSize h)]
                         else []))
                 (if j = 0 then calls [MoveTo (pt_x q) (pt_y q)]
                  else if activeTool h = EDIT_CONTROLS
                  then
                    (if j - 1 < length cs
                     then (case getEditControlPoints h (cs ! (j - 1)) (j - 1) of
                             Inl e \<Rightarrow> throws e
                           | Inr c \<Rightarrow>
                               calls [BezierCurveTo (sc_x1 c) (sc_y1 c) (sc_x2 c) (sc_y2 c)
                                        (pt_x q) (pt_y q)])
                     else throws TypeError)
                  else drawSegment cs j (pt_x q) (pt_y q)))
      else
        then_draw (calls [SetGlobalAlpha (inactiveOpacity h)])
          (if j = 0 then calls [MoveTo (pt_x p) (pt_y p)]
           else drawSegment cs j (pt_x p) (pt_y p)))"

text \<open>The body of the loop over the controls of the active group, with the control tool.\<close>

definition drawControl :: "DrawingHelper \<Rightarrow> Control \<Rightarrow> nat \<Rightarrow> drawn" where
  "drawControl h c j =
     (case getEditControlPoints h c j of
        Inl e \<Rightarrow> throws e
      | Inr e \<Rightarrow>
          calls [StrokeRect (sc_x1 e - pointSizeHalf h) (sc_y1 e - pointSizeHalf h)
                   (pointSize h) (pointSize h),
                 StrokeRect (sc_x2 e - pointSizeHalf h) (sc_y2 e - pointSizeHalf h)
                   (pointSize h) (pointSize h),
                 BeginPath, MoveTo (sc_x1 e) (sc_y1 e), LineTo (sc_x2 e) (sc_y2 e), Stroke])"

text \<open>
  The body of the loop over the curve groups. A group is drawn as active when the
  active group has its id.
\<close>

definition drawGroup :: "DrawingHelper \<Rightarrow> nat \<Rightarrow> drawn" where
  "drawGroup h r =
     (let g = heap h r;
          active = (case activeCurveGroup h of
                      None \<Rightarrow> False | Some a \<Rightarrow> gid (heap h a) = gid g)
      in if length (points g) = 0 then calls []
         else
           draw_all
             [calls [SetLineWidth (lineWidth h), SetStrokeStyle ''none'',
                     SetFillStyle (mainColor h), SetStrokeStyle (mainColor h), BeginPath],
              draw_all (map (\<lambda>j. drawPoint h active (controls g) j (points g ! j))
                          [0..<length (points g)]),
              calls [Stroke],
              (if active \<and> activeTool h = EDIT_CONTROLS
               then draw_all
                      (calls [SetFillStyle (controlColor h), SetStrokeStyle (controlColor h)] #
                       map (\<lambda>j. drawControl h (controls g ! j) j) [0..<length (controls g)])
               else calls [])])"

definition drawOrigin :: "DrawingHelper \<Rightarrow> drawn" where
  "drawOrigin h =
     (if activeTool h = EDIT_ORIGIN_POINT
      then
        then_draw (calls [SetLineWidth 2, SetStrokeStyle (originColor h), SetFillStyle ''none''])
          (case originPreview h of
             Inl e \<Rightarrow> throws e
           | Inr q \<Rightarrow>
               calls [BeginPath,
                      MoveTo (pt_x q) (pt_y q - originSizeHalf),
                      LineTo (pt_x q) (pt_y q + originSizeHalf),
                      MoveTo (pt_x q - originSizeHalf) (pt_y q),
                      LineTo (pt_x q + originSizeHalf) (pt_y q),
                      Stroke])
      else calls [])"

definition updateDrawing :: "DrawingHelper \<Rightarrow> drawn" where
  "updateDrawing h =
     draw_all
       [calls [ClearRect 0 0 canvasWidth canvasHeight],
        calls (ReferenceImage_update (activeTool h) (mousePos h) (reference h)),
        draw_all (map (drawGroup h) (curveGroups h)),
        calls [SetGlobalAlpha 1],
        drawOrigin h]"

text \<open>
  \<open>update\<close>: the pass writes to the canvas only; what it threw is caught, stops
  \<open>MainLoop\<close> and is logged (by the name of the error; the engine's message after the
  name is left out).
\<close>

fun error_name :: "js_error \<Rightarrow> string" where
  "error_name TypeError = ''TypeError''"
| "error_name RangeError = ''RangeError''"

definition update :: "DrawingHelper \<Rightarrow> DrawingHelper" where
  "update h =
     (case snd (updateDrawing h) of
        None \<Rightarrow> h\<lparr>canvas := fst (updateDrawing h)\<rparr>
      | Some e \<Rightarrow>
          console_log (''MainLoop update failed; with error: '' @ error_name e)
            (h\<lparr>canvas := fst (updateDrawing h), mainLoopRunning := False\<rparr>))"

text \<open>
  What happens between a pointer-down and the pointer-up that is still to come: the
  pointer moves, and the scheduler calls the update pass.
\<close>

datatype drag_event = PointerMove real real real real | UpdatePass

fun dragStep :: "drag_event \<Rightarrow> DrawingHelper \<Rightarrow> DrawingHelper" where
  "dragStep (PointerMove clientX clientY rect_x rect_y) h =
     handleMouseMove clientX clientY rect_x rect_y h"
| "dragStep UpdatePass h = update h"

fun dragSteps :: "drag_event list \<Rightarrow> DrawingHelper \<Rightarrow> DrawingHelper" where
  "dragSteps [] h = h"
| "dragSteps (e # es) h = dragSteps es (dragStep e h)"

section \<open>Settings and state persistence\<close>

text \<open>
  \<open>setProperty(key, value)\<close> writes the field named by \<open>key\<close> and nothing else. The
  keys are those of the display fields, each with a value of the field's type.
\<close>

datatype property =
    P_lineWidth real | P_pointRange real | P_pointSize real | P_activeOpacity real
  | P_inactiveOpacity real | P_mainColor string | P_controlColor string
  | P_originColor string | P_outputPrecision int

fun setProperty :: "property \<Rightarrow> DrawingHelper \<Rightarrow> DrawingHelper" where
  "setProperty (P_lineWidth v) h = h\<lparr>lineWidth := v\<rparr>"
| "setProperty (P_pointRange v) h = h\<lparr>pointRange := v\<rparr>"
| "setProperty (P_pointSize v) h = h\<lparr>pointSize := v\<rparr>"
| "setProperty (P_activeOpacity v) h = h\<lparr>activeOpacity := v\<rparr>"
| "setProperty (P_inactiveOpacity v) h = h\<lparr>inactiveOpacity := v\<rparr>"
| "setProperty (P_mainColor v) h = h\<lparr>mainColor := v\<rparr>"
| "setProperty (P_controlColor v) h = h\<lparr>controlColor := v\<rparr>"
| "setProperty (P_originColor v) h = h\<lparr>originColor := v\<rparr>"
| "setProperty (P_outputPrecision v) h = h\<lparr>outputPrecision := v\<rparr>"

definition setPointRange :: "real \<Rightarrow> DrawingHelper \<Rightarrow> DrawingHelper" where
  "setPointRange v h = h\<lparr>pointRange := v, pointRangeHalf := v * 0.5\<rparr>"

definition setPointSize :: "real \<Rightarrow> DrawingHelper \<Rightarrow> DrawingHelper" where
  "setPointSize v h = h\<lparr>pointSize := v, pointSizeHalf := v * 0.5\<rparr>"

definition setData :: "string \<Rightarrow> ReferenceImage \<Rightarrow> ReferenceImage" where
  "setData d this = this\<lparr>data := d, image_src := d\<rparr>"

definition clearData :: "ReferenceImage \<Rightarrow> ReferenceImage" where
  "clearData this = (setData [] this)\<lparr>ready := False\<rparr>"

definition resetTransforms :: "ReferenceImage \<Rightarrow> ReferenceImage" where
  "resetTransforms this = this\<lparr>offset := \<lparr>pt_x = 0, pt_y = 0\<rparr>, scale := 1\<rparr>"

definition setReferenceData :: "string \<Rightarrow> DrawingHelper \<Rightarrow> DrawingHelper" where
  "setReferenceData d h = h\<lparr>reference := setData d (reference h)\<rparr>"

text \<open>
  \<open>getSaveData\<close>: \<open>new Blob([this.data]).size\<close> is the number of bytes of the payload.
\<close>

definition getSaveData :: "ReferenceImage \<Rightarrow> string" where
  "getSaveData this =
     (let size = real (length (data this)) / 1000000 in
      if size < 4000000 then data this else [])"

text \<open>
  The object that \<open>saveState\<close> serialises and \<open>loadState\<close> reads, after
  \<open>JSON.parse\<close>: every top-level field may be absent (\<open>undefined\<close>), and
  \<open>JSON.stringify\<close> leaves out a field whose value is \<open>undefined\<close>.
\<close>

record GroupData =
  sg_id :: string
  sg_points :: "Point list"
  sg_controls :: "ControlData list"

record ReferenceData =
  sr_scale :: real
  sr_offset :: Point
  sr_opacity :: real
  sr_color :: string
  sr_data :: string

record Snapshot =
  s_timestamp :: "int option"
  s_originPos :: "Point option"
  s_curveGroups :: "GroupData list option"
  s_activeGroupId :: "string option"
  s_reference :: "ReferenceData option"
  s_activeTool :: "ToolTypes option"
  s_lineWidth :: "real option"
  s_pointRange :: "real option"
  s_pointSize :: "real option"
  s_activeOpacity :: "real option"
  s_inactiveOpacity :: "real option"
  s_mainColor :: "string option"
  s_controlColor :: "string option"
  s_originColor :: "string option"
  s_outputPrecision :: "int option"

text \<open>\<open>if (state.key !== undefined) ...\<close>\<close>

definition when_defined :: "'a option \<Rightarrow> ('a \<Rightarrow> 's \<Rightarrow> 's) \<Rightarrow> 's \<Rightarrow> 's" where
  "when_defined v f h = (case v of None \<Rightarrow> h | Some x \<Rightarrow> f x h)"

text \<open>\<open>state.curveGroups.map(...)\<close>: one new group object for each saved group, in order.\<close>

definition groupInstance :: "GroupData \<Rightarrow> CurveGroup" where
  "groupInstance grp =
     (new_CurveGroup (sg_id grp))
       \<lparr>points := map (\<lambda>p. new_Point (pt_x p) (pt_y p)) (sg_points grp),
        controls := map (\<lambda>c. new_Control (sc_x1 c) (sc_y1 c) (sc_x2 c) (sc_y2 c))
                      (sg_controls grp)\<rparr>"

fun loadGroups :: "GroupData list \<Rightarrow> DrawingHelper \<Rightarrow> nat list \<times> DrawingHelper" where
  "loadGroups [] h = ([], h)"
| "loadGroups (grp # groups) h =
     (let (r, h1) = alloc (groupInstance grp) h;
          (rs, h2) = loadGroups groups h1
      in (r # rs, h2))"

definition loadCurveGroups :: "GroupData list \<Rightarrow> DrawingHelper \<Rightarrow> DrawingHelper" where
  "loadCurveGroups groups h = (let (rs, h1) = loadGroups groups h in h1\<lparr>curveGroups := rs\<rparr>)"

definition loadReference :: "ReferenceData \<Rightarrow> DrawingHelper \<Rightarrow> DrawingHelper" where
  "loadReference r h =
     (let ref1 = (reference h)\<lparr>scale := sr_scale r\<rparr>;
          ref2 = ref1\<lparr>offset := \<lparr>pt_x = pt_x (sr_offset r), pt_y = pt_y (sr_offset r)\<rparr>\<rparr>;
          ref3 = ref2\<lparr>opacity := sr_opacity r\<rparr>;
          ref4 = ref3\<lparr>color := sr_color r\<rparr>
      in h\<lparr>reference := (if sr_data r \<noteq> [] then setData (sr_data r) ref4 else ref4)\<rparr>)"

definition loadState :: "Snapshot \<Rightarrow> DrawingHelper \<Rightarrow> DrawingHelper" where
  "loadState state h =
     (let h1 = when_defined (s_originPos state) (\<lambda>v h. h\<lparr>originPos := v\<rparr>) h;
          h2 = when_defined (s_curveGroups state) loadCurveGroups h1;
          h3 = when_defined (s_activeGroupId state) setActiveGroupId h2;
          h4 = when_defined (s_reference state) loadReference h3;
          h5 = when_defined (s_activeTool state) (\<lambda>v h. h\<lparr>activeTool := v\<rparr>) h4;
          k1 = when_defined (s_lineWidth state) (\<lambda>v. setProperty (P_lineWidth v)) h5;
          k2 = when_defined (s_pointRange state) (\<lambda>v. setProperty (P_pointRange v)) k1;
          k3 = when_defined (s_pointSize state) (\<lambda>v. setProperty (P_pointSize v)) k2;
          k4 = when_defined (s_activeOpacity state) (\<lambda>v. setProperty (P_activeOpacity v)) k3;
          k5 = when_defined (s_inactiveOpacity state) (\<lambda>v. setProperty (P_inactiveOpacity v)) k4;
          k6 = when_defined (s_mainColor state) (\<lambda>v. setProperty (P_mainColor v)) k5;
          k7 = when_defined (s_controlColor state) (\<lambda>v. setProperty (P_controlColor v)) k6;
          k8 = when_defined (s_originColor state) (\<lambda>v. setProperty (P_originColor v)) k7
      in when_defined (s_outputPrecision state) (\<lambda>v. setProperty (P_outputPrecision v)) k8)"

text \<open>The object literal that \<open>saveState\<close> passes to \<open>JSON.stringify\<close>, at time \<open>now\<close>.\<close>

definition groupData :: "CurveGroup \<Rightarrow> GroupData" where
  "groupData grp =
     \<lparr>sg_id = gid grp,
      sg_points = map (\<lambda>p. \<lparr>pt_x = pt_x p, pt_y = pt_y p\<rparr>) (points grp),
      sg_controls = map (\<lambda>c. \<lparr>sc_x1 = pt_x (point1 c), sc_y1 = pt_y (point1 c),
                             sc_x2 = pt_x (point2 c), sc_y2 = pt_y (point2 c)\<rparr>)
                      (controls grp)\<rparr>"

definition stateSnapshot :: "int \<Rightarrow> DrawingHelper \<Rightarrow> Snapshot" where
  "stateSnapshot now h =
     \<lparr>s_timestamp = Some now,
      s_originPos = Some (originPos h),
      s_curveGroups = Some (map (\<lambda>r. groupData (heap h r)) (curveGroups h)),
      s_activeGroupId = map_option (\<lambda>a. gid (heap h a)) (activeCurveGroup h),
      s_reference = Some
        \<lparr>sr_scale = scale (reference h), sr_offset = offset (reference h),
         sr_opacity = opacity (reference h), sr_color = color (reference h),
         sr_data = getSaveData (reference h)\<rparr>,
      s_activeTool = Some (activeTool h),
      s_lineWidth = Some (lineWidth h),
      s_pointRange = Some (pointRange h),
      s_pointSize = Some (pointSize h),
      s_activeOpacity = Some (activeOpacity h),
      s_inactiveOpacity = Some (inactiveOpacity h),
      s_mainColor = Some (mainColor h),
      s_controlColor = Some (controlColor h),
      s_originColor = Some (originColor h),
      s_outputPrecision = Some (outputPrecision h)\<rparr>"

text \<open>
  \<open>saveState\<close> on the entry of \<open>localStorage\<close> under \<open>storageKey\<close>. The store is the
  browser's: \<open>setItem\<close> says whether it takes the snapshot (\<open>None\<close>) or throws (the
  text of the exception), for instance when the quota is exceeded.
\<close>

definition saveState ::
  "int \<Rightarrow> (Snapshot \<Rightarrow> string option) \<Rightarrow> Snapshot option \<Rightarrow> DrawingHelper \<Rightarrow>
   bool \<times> Snapshot option \<times> DrawingHelper" where
  "saveState now setItem store h =
     (case setItem (stateSnapshot now h) of
        None \<Rightarrow> (True, Some (stateSnapshot now h), setMessage ''Successfully saved state'' h)
      | Some e \<Rightarrow>
          (False, store,
           console_log (''Failed to save the state; with error: '' @ e)
             (setMessage ''Failed to save the state; check the console for more info'' h)))"

text \<open>The active reference is none, or a group of the collection.\<close>

definition active_in_collection :: "DrawingHelper \<Rightarrow> bool" where
  "active_in_collection h =
     (case activeCurveGroup h of None \<Rightarrow> True | Some a \<Rightarrow> a \<in> set (curveGroups h))"

section \<open>SVG export\<close>

text \<open>
  \<open>Number.prototype.toFixed\<close> on the reals, by the steps of the language
  specification: a \<open>RangeError\<close> outside 0..100 digits; the sign; \<open>n\<close> the integer
  nearest to \<open>x * 10^f\<close>, the larger of two; its decimal digits, padded with zeros to
  \<open>f + 1\<close> digits, with the point before the last \<open>f\<close>. From \<open>10^21\<close> on the
  result is the number's \<open>toString\<close>, which is a parameter here.
\<close>

definition digit :: "nat \<Rightarrow> char" where
  "digit d = ''0123456789'' ! d"

fun digits :: "nat \<Rightarrow> string" where
  "digits n = (if n < 10 then [digit n] else digits (n div 10) @ [digit (n mod 10)])"

declare digits.simps [simp del]

definition toFixed :: "(real \<Rightarrow> string) \<Rightarrow> int \<Rightarrow> real \<Rightarrow> js_error + string" where
  "toFixed toString f x =
     (if f < 0 \<or> f > 100 then Inl RangeError
      else
        let s = (if x < 0 then ''-'' else '''');
            x = (if x < 0 then - x else x)
        in if x \<ge> 10 ^ 21 then Inr (s @ toString x)
           else
             let n = nat \<lfloor>x * 10 ^ nat f + 1 / 2\<rfloor>;
                 m = digits n;
                 m = (if f \<noteq> 0
                      then
                        let k = length m;
                            m = (if k \<le> nat f then replicate (nat f + 1 - k) CHR ''0'' @ m else m);
                            k = (if k \<le> nat f then nat f + 1 else k)
                        in take (k - nat f) m @ ''.'' @ drop (k - nat f) m
                      else m)
             in Inr (s @ m))"

text \<open>\<open>getSVGCoords\<close>: \<open>y\<close> first, then \<open>x\<close>.\<close>

definition getSVGCoords :: "(real \<Rightarrow> string) \<Rightarrow> Point \<Rightarrow> int \<Rightarrow> js_error + string" where
  "getSVGCoords toString p precision =
     (case toFixed toString precision (pt_y p) of
        Inl e \<Rightarrow> Inl e
      | Inr ys \<Rightarrow>
          (case toFixed toString precision (pt_x p) of
             Inl e \<Rightarrow> Inl e
           | Inr xs \<Rightarrow> Inr (ys @ '' '' @ xs)))"

text \<open>The first line of the document; \<open>canvasWidth\<close> and \<open>canvasHeight\<close> print as 1024 and 768.\<close>

definition svgOpen :: "string \<Rightarrow> string" where
  \<open>svgOpen stroke =
     ''<svg xmlns="http://www.w3.org/2000/svg" viewBox="0 0 1024 768" fill="none" stroke="'' @
     stroke @ ''">''\<close>

text \<open>\<open>Array.prototype.join\<close>\<close>

fun join :: "string \<Rightarrow> string list \<Rightarrow> string" where
  "join sep [] = []"
| "join sep [s] = s"
| "join sep (s # t # ss) = s @ sep @ join sep (t # ss)"

text \<open>
  The loop of \<open>getSVGString\<close> over \<open>i = 1, ..., points.length - 1\<close>, on \<open>pathData\<close>.
  Reading \<open>points\<close> of a control that is not there throws.
\<close>

function pathCommands ::
  "(real \<Rightarrow> string) \<Rightarrow> int \<Rightarrow> Point list \<Rightarrow> Control list \<Rightarrow> nat \<Rightarrow> string list \<Rightarrow>
   js_error + string list" where
  "pathCommands toString precision ps cs i pathData =
     (if i < length ps
      then
        (if i - 1 < length cs
         then
           (case getSVGCoords toString (point1 (cs ! (i - 1))) precision of
              Inl e \<Rightarrow> Inl e
            | Inr c1 \<Rightarrow>
                (case getSVGCoords toString (point2 (cs ! (i - 1))) precision of
                   Inl e \<Rightarrow> Inl e
                 | Inr c2 \<Rightarrow>
                     (case getSVGCoords toString (ps ! i) precision of
                        Inl e \<Rightarrow> Inl e
                      | Inr c3 \<Rightarrow>
                          pathCommands toString precision ps cs (Suc i)
                            (pathData @ [''C'' @ c1 @ '', '' @ c2 @ '', '' @ c3]))))
         else Inl TypeError)
      else Inr pathData)"
  by pat_completeness auto
termination
  by (relation "measure (\<lambda>(toString, precision, ps, cs, i, pathData). length ps - i)") auto

declare pathCommands.simps [simp del]

text \<open>The path element of one group; \<open>CHR 0x09\<close> is the tab.\<close>

definition groupPath :: "(real \<Rightarrow> string) \<Rightarrow> int \<Rightarrow> CurveGroup \<Rightarrow> js_error + string" where
  \<open>groupPath toString precision g =
     (case getSVGCoords toString (points g ! 0) precision of
        Inl e \<Rightarrow> Inl e
      | Inr m \<Rightarrow>
          (case pathCommands toString precision (points g) (controls g) 1 [''M'' @ m] of
             Inl e \<Rightarrow> Inl e
           | Inr pathData \<Rightarrow> Inr (CHR 0x09 # ''<path d="'' @ join '' '' pathData @ ''" />'')))\<close>

text \<open>\<open>Array.prototype.map\<close> with a callback that may throw: the first exception ends it.\<close>

fun map_result :: "('a \<Rightarrow> 'e + 'b) \<Rightarrow> 'a list \<Rightarrow> 'e + 'b list" where
  "map_result f [] = Inr []"
| "map_result f (x # xs) =
     (case f x of
        Inl e \<Rightarrow> Inl e
      | Inr y \<Rightarrow> (case map_result f xs of Inl e \<Rightarrow> Inl e | Inr ys \<Rightarrow> Inr (y # ys)))"

definition getSVGString :: "(real \<Rightarrow> string) \<Rightarrow> DrawingHelper \<Rightarrow> js_error + string" where
  "getSVGString toString h =
     (case map_result (groupPath toString (outputPrecision h))
             (filter (\<lambda>g. length (points g) > 1) (groups_of h)) of
        Inl e \<Rightarrow> Inl e
      | Inr paths \<Rightarrow>
          Inr (join [CHR 0x0A] [svgOpen (mainColor h), join [CHR 0x0A] paths, ''</svg>'']))"

text \<open>
  The document in the words of the specification: a number at the configured precision;
  a coordinate pair, \<open>y\<close> then \<open>x\<close>; the \<open>d\<close> attribute, an absolute move to the first
  point and one cubic command for each later point with the two endpoints of the
  control of its segment; one path element for each group with more than one point.
\<close>

definition fixed_spec :: "(real \<Rightarrow> string) \<Rightarrow> int \<Rightarrow> real \<Rightarrow> string" where
  "fixed_spec toString precision v =
     (case toFixed toString precision v of Inr s \<Rightarrow> s | Inl e \<Rightarrow> [])"

definition pair_spec :: "(real \<Rightarrow> string) \<Rightarrow> int \<Rightarrow> Point \<Rightarrow> string" where
  "pair_spec toString precision p =
     fixed_spec toString precision (pt_y p) @ '' '' @ fixed_spec toString precision (pt_x p)"

definition pathData_spec :: "(real \<Rightarrow> string) \<Rightarrow> int \<Rightarrow> CurveGroup \<Rightarrow> string" where
  "pathData_spec toString precision g =
     join '' ''
       ((''M'' @ pair_spec toString precision (hd (points g))) #
        map (\<lambda>(p, c). ''C'' @ pair_spec toString precision (point1 c) @ '', '' @
                        pair_spec toString precision (point2 c) @ '', '' @
                        pair_spec toString precision p)
          (zip (tl (points g)) (controls g)))"

definition groupPath_spec :: "(real \<Rightarrow> string) \<Rightarrow> int \<Rightarrow> CurveGroup \<Rightarrow> string" where
  \<open>groupPath_spec toString precision g =
     CHR 0x09 # ''<path d="'' @ pathData_spec toString precision g @ ''" />''\<close>

definition svg_spec :: "(real \<Rightarrow> string) \<Rightarrow> DrawingHelper \<Rightarrow> string" where
  "svg_spec toString h =
     join [CHR 0x0A]
       [svgOpen (mainColor h),
        join [CHR 0x0A]
          (map (groupPath_spec toString (outputPrecision h))
             (filter (\<lambda>g. length (points g) > 1) (groups_of h))),
        ''</svg>'']"

section \<open>Editing a group\<close>

text \<open>
  The invariant of the data model on one group: one control fewer than points, and no
  control without a point.
\<close>

definition controls_match :: "CurveGroup \<Rightarrow> bool" where
  "controls_match g =
     ((length (points g) > 0 \<longrightarrow> length (controls g) = length (points g) - 1) \<and>
      (length (points g) = 0 \<longrightarrow> length (controls g) = 0))"

text \<open>
  The two editing commands of a group: a pointer-down after the pointer has moved to
  \<open>(x, y)\<close> of the canvas (whose rectangle starts at the client origin), and the
  delete-last-point button.
\<close>

datatype edit = AddPoint real real | DeleteLast

fun applyEdit :: "edit \<Rightarrow> DrawingHelper \<Rightarrow> DrawingHelper" where
  "applyEdit (AddPoint x y) h = handleMouseDown (handleMouseMove x y 0 0 h)"
| "applyEdit DeleteLast h = deleteLastPoint h"

fun applyEdits :: "edit list \<Rightarrow> DrawingHelper \<Rightarrow> DrawingHelper" where
  "applyEdits [] h = h"
| "applyEdits (e # es) h = applyEdits es (applyEdit e h)"

text \<open>The canvas rectangle with its border, and without.\<close>

definition insideCanvas :: "Point \<Rightarrow> bool" where
  "insideCanvas p =
     (0 \<le> pt_x p \<and> pt_x p \<le> canvasWidth \<and> 0 \<le> pt_y p \<and> pt_y p \<le> canvasHeight)"

definition strictlyInsideCanvas :: "Point \<Rightarrow> bool" where
  "strictlyInsideCanvas p =
     (0 < pt_x p \<and> pt_x p < canvasWidth \<and> 0 < pt_y p \<and> pt_y p < canvasHeight)"

text \<open>
  The drag target of \<open>EDIT_CONTROLS\<close> in the words of the specification: controls in
  index order, each control's two endpoints in order, the first endpoint in pick range.
\<close>

fun firstEndpoint_spec :: "real \<Rightarrow> real \<Rightarrow> real \<Rightarrow> nat \<Rightarrow> Control list \<Rightarrow> (nat \<times> nat) option" where
  "firstEndpoint_spec mouseX mouseY rng i [] = None"
| "firstEndpoint_spec mouseX mouseY rng i (c # cs) =
     (if inPickRange mouseX mouseY rng (point1 c) then Some (i, 0)
      else if inPickRange mouseX mouseY rng (point2 c) then Some (i, 1)
      else firstEndpoint_spec mouseX mouseY rng (Suc i) cs)"

text \<open>
  States for the examples: a new editor with the add tool and one group \<open>''a''\<close>; the
  same after a click at \<open>(0, 0)\<close> with the pointer moved on to \<open>(100, 0)\<close>; and after
  clicks at \<open>(100, 100)\<close>, \<open>(110, 100)\<close> and \<open>(120, 100)\<close>, with the control tool and
  the pointer at \<open>(110, 100)\<close>; and after one click at \<open>(100, 100)\<close>, with the point tool
  and the pointer at \<open>(102, 99)\<close>; and after clicks at \<open>(0, 0)\<close> and \<open>(10, 20)\<close>.
\<close>

definition h_add :: DrawingHelper where
  "h_add = createGroup ''a'' (setActiveTool ADD_POINTS new_DrawingHelper)"

definition h_one :: DrawingHelper where
  "h_one = handleMouseMove 100 0 0 0 (applyEdits [AddPoint 0 0] h_add)"

definition h_drag :: DrawingHelper where
  "h_drag =
     handleMouseMove 102 99 0 0
       (setActiveTool EDIT_POINTS (applyEdits [AddPoint 100 100] h_add))"

definition h_two :: DrawingHelper where
  "h_two = applyEdits [AddPoint 0 0, AddPoint 10 20] h_add"

definition h_three :: DrawingHelper where
  "h_three =
     handleMouseMove 110 100 0 0
       (setActiveTool EDIT_CONTROLS
         (applyEdits [AddPoint 100 100, AddPoint 110 100, AddPoint 120 100] h_add))"

section \<open>Properties of the group commands\<close>

lemma wf_createGroup: "wf_state h \<Longrightarrow> wf_state (createGroup i h)"
  by (auto simp: wf_state_def createGroup_def alloc_def list_all_iff split: option.splits)

text \<open>
  C10: \<open>createGroup(id)\<close> appends a new curve group with that id and empty \<open>points\<close> and
  \<open>controls\<close> to the end of the collection, and makes it the active group whatever the
  active group was. The new group is a new object: no element of the old collection is
  it, and the old groups are as they were.
\<close>

theorem createGroup_appends_and_activates:
  "wf_state h \<Longrightarrow>
     groups_of (createGroup i h) = groups_of h @ [\<lparr>points = [], controls = [], gid = i\<rparr>] \<and>
     curveGroups (createGroup i h) = curveGroups h @ [next_ref h] \<and>
     next_ref h \<notin> set (curveGroups h) \<and>
     activeCurveGroup (createGroup i h) = Some (next_ref h)"
  by (auto simp: wf_state_def createGroup_def alloc_def groups_of_def new_CurveGroup_def
      list_all_iff)

theorem createGroup_appends_and_activates_witness:
  "wf_state (createGroup ''a'' new_DrawingHelper) \<and>
   groups_of (createGroup ''b'' (createGroup ''a'' new_DrawingHelper)) =
     [\<lparr>points = [], controls = [], gid = ''a''\<rparr>, \<lparr>points = [], controls = [], gid = ''b''\<rparr>] \<and>
   activeCurveGroup (createGroup ''a'' new_DrawingHelper) = Some 0 \<and>
   activeCurveGroup (createGroup ''b'' (createGroup ''a'' new_DrawingHelper)) = Some 1"
proof -
  have w: "wf_state (createGroup ''a'' new_DrawingHelper)"
    by (simp add: wf_state_def createGroup_def alloc_def new_DrawingHelper_def)
  have g: "groups_of (createGroup ''a'' new_DrawingHelper) =
      [\<lparr>points = [], controls = [], gid = ''a''\<rparr>]"
    by (simp add: groups_of_def createGroup_def alloc_def new_DrawingHelper_def
        new_CurveGroup_def)
  have n: "next_ref (createGroup ''a'' new_DrawingHelper) = 1"
    by (simp add: createGroup_def alloc_def new_DrawingHelper_def)
  have a: "activeCurveGroup (createGroup ''a'' new_DrawingHelper) = Some 0"
    by (simp add: createGroup_def alloc_def new_DrawingHelper_def)
  show ?thesis
    using createGroup_appends_and_activates [OF w, of "''b''"] w g n a by simp
qed

section \<open>Adding and deleting points\<close>

lemma sqrt_pos_x: "x > 0 \<Longrightarrow> sqrt (x * x + y * y) = x * sqrt (1 + (y / x)\<^sup>2)"
proof -
  assume x: "x > 0"
  have "x * x + y * y = x\<^sup>2 * (1 + (y / x)\<^sup>2)"
    using x by (simp add: power2_eq_square field_simps)
  then show ?thesis using x by (simp add: real_sqrt_mult)
qed

lemma sqrt_neg_x: "x < 0 \<Longrightarrow> sqrt (x * x + y * y) = - x * sqrt (1 + (y / x)\<^sup>2)"
proof -
  assume x: "x < 0"
  have "x * x + y * y = x\<^sup>2 * (1 + (y / x)\<^sup>2)"
    using x by (simp add: power2_eq_square field_simps)
  then show ?thesis using x by (simp add: real_sqrt_mult)
qed

lemma sqrt_one_plus_pos: "sqrt (1 + (t::real)\<^sup>2) > 0"
  by (simp add: add_pos_nonneg)

lemma cos_atan2: "cos (atan2 y x) * sqrt (x * x + y * y) = x"
proof -
  consider "x > 0" | "x < 0" "y \<ge> 0" | "x < 0" "y < 0" | "x = 0"
    by linarith
  then show ?thesis
  proof cases
    case 1
    then show ?thesis
      using sqrt_one_plus_pos [of "y / x"]
      by (simp add: atan2_def cos_arctan sqrt_pos_x)
  next
    case 2
    then show ?thesis
      using sqrt_one_plus_pos [of "y / x"]
      by (simp add: atan2_def cos_arctan sqrt_neg_x)
  next
    case 3
    then show ?thesis
      using sqrt_one_plus_pos [of "y / x"]
      by (simp add: atan2_def cos_arctan sqrt_neg_x cos_diff)
  next
    case 4
    then show ?thesis by (simp add: atan2_def)
  qed
qed

lemma sin_atan2: "sin (atan2 y x) * sqrt (x * x + y * y) = y"
proof -
  consider "x > 0" | "x < 0" "y \<ge> 0" | "x < 0" "y < 0" | "x = 0"
    by linarith
  then show ?thesis
  proof cases
    case 1
    then show ?thesis
      using sqrt_one_plus_pos [of "y / x"]
      by (simp add: atan2_def sin_arctan sqrt_pos_x)
  next
    case 2
    then show ?thesis
      using sqrt_one_plus_pos [of "y / x"]
      by (simp add: atan2_def sin_arctan sqrt_neg_x)
  next
    case 3
    then show ?thesis
      using sqrt_one_plus_pos [of "y / x"]
      by (simp add: atan2_def sin_arctan sqrt_neg_x sin_diff)
  next
    case 4
    then show ?thesis by (simp add: atan2_def)
  qed
qed

lemma drop_last_two: "xs \<noteq> [] \<Longrightarrow> drop (length (xs @ [p]) - 2) (xs @ [p]) = [last xs, p]"
proof -
  assume "xs \<noteq> []"
  then obtain ys y where xs: "xs = ys @ [y]"
    by (metis append_butlast_last_id)
  show ?thesis by (simp add: xs)
qed

lemma distanceTo_sym_sqrt:
  "distanceTo p1 p2 = sqrt ((pt_x p2 - pt_x p1) * (pt_x p2 - pt_x p1) + (pt_y p2 - pt_y p1) * (pt_y p2 - pt_y p1))"
proof -
  have "(pt_x p1 - pt_x p2) * (pt_x p1 - pt_x p2) = (pt_x p2 - pt_x p1) * (pt_x p2 - pt_x p1)"
    by (simp add: algebra_simps)
  moreover have "(pt_y p1 - pt_y p2) * (pt_y p1 - pt_y p2) = (pt_y p2 - pt_y p1) * (pt_y p2 - pt_y p1)"
    by (simp add: algebra_simps)
  ultimately show ?thesis by (simp add: distanceTo_def Let_def)
qed

lemma synthControl_last_two:
  assumes "xs \<noteq> []"
  shows "synthControl (xs @ [p]) =
     Some (new_Control (pt_x (last xs) + (pt_x p - pt_x (last xs)) * 0.2)
                       (pt_y (last xs) + (pt_y p - pt_y (last xs)) * 0.2)
                       (pt_x (last xs) + (pt_x p - pt_x (last xs)) * 0.8)
                       (pt_y (last xs) + (pt_y p - pt_y (last xs)) * 0.8))"
proof -
  have d: "drop (length (xs @ [p]) - 2) (xs @ [p]) = [last xs, p]"
    using assms by (rule drop_last_two)
  have c: "cos (atan2 (pt_y p - pt_y (last xs)) (pt_x p - pt_x (last xs))) * distanceTo (last xs) p
      = pt_x p - pt_x (last xs)"
    by (simp only: distanceTo_sym_sqrt cos_atan2)
  have s: "sin (atan2 (pt_y p - pt_y (last xs)) (pt_x p - pt_x (last xs))) * distanceTo (last xs) p
      = pt_y p - pt_y (last xs)"
    by (simp only: distanceTo_sym_sqrt sin_atan2)
  show ?thesis
    unfolding synthControl_def d by (simp only: list.case Let_def c s)
qed

lemma reference_onMouseDown_other_tool:
  "activeTool h \<noteq> TRANSFORM_REFERENCE \<Longrightarrow> reference_onMouseDown h = h"
  by (simp add: reference_onMouseDown_def ReferenceImage_onMouseDown_def)

lemma handleMouseDown_ADD_POINTS:
  assumes t: "activeTool h = ADD_POINTS" and a: "activeCurveGroup h = Some a"
  shows "handleMouseDown h =
     (if pt_x (mousePos h) < 0 \<or> pt_x (mousePos h) > canvasWidth \<or>
         pt_y (mousePos h) < 0 \<or> pt_y (mousePos h) > canvasHeight then h
      else h\<lparr>heap := (heap h)(a := (heap h a)
             \<lparr>points := points (heap h a) @ [mousePos h],
              controls := (if points (heap h a) = [] then controls (heap h a)
                           else controls (heap h a) @
                             [new_Control
                               (pt_x (last (points (heap h a))) + (pt_x (mousePos h) - pt_x (last (points (heap h a)))) * 0.2)
                               (pt_y (last (points (heap h a))) + (pt_y (mousePos h) - pt_y (last (points (heap h a)))) * 0.2)
                               (pt_x (last (points (heap h a))) + (pt_x (mousePos h) - pt_x (last (points (heap h a)))) * 0.8)
                               (pt_y (last (points (heap h a))) + (pt_y (mousePos h) - pt_y (last (points (heap h a)))) * 0.8)])\<rparr>)\<rparr>)"
proof (cases "points (heap h a) = []")
  case True
  have p: "new_Point (pt_x (mousePos h)) (pt_y (mousePos h)) = mousePos h"
    by (simp add: new_Point_def)
  show ?thesis
    using t a True
    by (simp add: handleMouseDown_def Let_def p reference_onMouseDown_other_tool)
next
  case False
  have p: "new_Point (pt_x (mousePos h)) (pt_y (mousePos h)) = mousePos h"
    by (simp add: new_Point_def)
  have l: "length (points (heap h a) @ [mousePos h]) > 1"
    using False by (cases "points (heap h a)") simp_all
  show ?thesis
    using t a False l
    by (simp add: handleMouseDown_def Let_def p reference_onMouseDown_other_tool
        synthControl_last_two del: length_append)
qed

lemma handleMouseMove_fields:
  "activeTool (handleMouseMove x y rx ry h) = activeTool h"
  "activeCurveGroup (handleMouseMove x y rx ry h) = activeCurveGroup h"
  "heap (handleMouseMove x y rx ry h) = heap h"
  "mousePos (handleMouseMove x y rx ry h) = \<lparr>pt_x = x - rx, pt_y = y - ry\<rparr>"
  by (simp_all add: handleMouseMove_def)

lemma handleMouseDown_ADD_POINTS_group:
  assumes "activeTool h = ADD_POINTS" and "activeCurveGroup h = Some a"
  shows "heap (handleMouseDown h) r = heap h r \<or>
     (points (heap (handleMouseDown h) r) = points (heap h r) @ [mousePos h] \<and>
      length (controls (heap (handleMouseDown h) r)) =
        (if points (heap h r) = [] then length (controls (heap h r))
         else Suc (length (controls (heap h r)))))"
  by (simp add: handleMouseDown_ADD_POINTS [OF assms])

lemma controls_match_add:
  assumes "controls_match g" and "points g' = points g @ [p]"
    and "length (controls g') =
        (if points g = [] then length (controls g) else Suc (length (controls g)))"
  shows "controls_match g'"
  using assms by (cases "points g") (auto simp: controls_match_def)

lemma controls_match_pop:
  assumes "controls_match g"
  shows "controls_match (g\<lparr>points := butlast (points g), controls := butlast (controls g)\<rparr>)"
  using assms by (auto simp: controls_match_def)

lemma applyEdit_tool: "activeTool h = ADD_POINTS \<Longrightarrow> activeTool (applyEdit e h) = ADD_POINTS"
proof (cases e)
  case (AddPoint x y)
  assume t: "activeTool h = ADD_POINTS"
  show ?thesis
  proof (cases "activeCurveGroup h")
    case None
    then show ?thesis using t AddPoint
      by (simp add: handleMouseDown_def handleMouseMove_def setMessage_def)
  next
    case (Some a)
    then show ?thesis using t AddPoint
      by (simp add: handleMouseDown_ADD_POINTS handleMouseMove_fields)
  qed
next
  case DeleteLast
  assume "activeTool h = ADD_POINTS"
  then show ?thesis using DeleteLast
    by (simp add: deleteLastPoint_def split: option.splits)
qed

lemma applyEdit_controls_match:
  assumes t: "activeTool h = ADD_POINTS" and m: "controls_match (heap h r)"
  shows "controls_match (heap (applyEdit e h) r)"
proof (cases e)
  case (AddPoint x y)
  let ?h = "handleMouseMove x y 0 0 h"
  have m': "controls_match (heap ?h r)" and t': "activeTool ?h = ADD_POINTS"
    using m t by (simp_all add: handleMouseMove_fields)
  show ?thesis
  proof (cases "activeCurveGroup ?h")
    case None
    then show ?thesis using t' m' AddPoint
      by (simp add: handleMouseDown_def setMessage_def)
  next
    case (Some a)
    from handleMouseDown_ADD_POINTS_group [OF t' Some, of r]
    have "controls_match (heap (handleMouseDown ?h) r)"
    proof
      assume "heap (handleMouseDown ?h) r = heap ?h r"
      then show ?thesis using m' by simp
    next
      assume "points (heap (handleMouseDown ?h) r) = points (heap ?h r) @ [mousePos ?h] \<and>
        length (controls (heap (handleMouseDown ?h) r)) =
          (if points (heap ?h r) = [] then length (controls (heap ?h r))
           else Suc (length (controls (heap ?h r))))"
      then show ?thesis using controls_match_add [OF m'] by blast
    qed
    then show ?thesis using AddPoint by simp
  qed
next
  case DeleteLast
  then show ?thesis using m controls_match_pop [of "heap h r"]
    by (simp add: deleteLastPoint_def split: option.splits)
qed

lemma applyEdits_controls_match:
  "activeTool h = ADD_POINTS \<Longrightarrow> controls_match (heap h r) \<Longrightarrow>
     controls_match (heap (applyEdits es h) r)"
proof (induction es arbitrary: h)
  case Nil
  then show ?case by simp
next
  case (Cons e es)
  then show ?case
    using applyEdit_tool [of h e] applyEdit_controls_match [of h r e] by simp
qed

lemma applyEdits_active:
  "activeTool h = ADD_POINTS \<Longrightarrow> activeCurveGroup (applyEdits es h) = activeCurveGroup h"
proof (induction es arbitrary: h)
  case Nil
  then show ?case by simp
next
  case (Cons e es)
  have "activeCurveGroup (applyEdit e h) = activeCurveGroup h"
  proof (cases e)
    case (AddPoint x y)
    show ?thesis
    proof (cases "activeCurveGroup h")
      case None
      then show ?thesis using Cons.prems AddPoint
        by (simp add: handleMouseDown_def handleMouseMove_def setMessage_def)
    next
      case (Some a)
      then show ?thesis using Cons.prems AddPoint
        by (simp add: handleMouseDown_ADD_POINTS handleMouseMove_fields)
    qed
  next
    case DeleteLast
    then show ?thesis by (simp add: deleteLastPoint_def split: option.splits)
  qed
  then show ?case
    using Cons.IH [of "applyEdit e h"] applyEdit_tool [OF Cons.prems, of e] by simp
qed

text \<open>
  C1: a freshly created group has no points and no controls, and with the add tool any
  finite sequence of pointer-downs (wherever the pointer is, so also inside the canvas)
  and delete-last-point commands keeps, in every group \<open>r\<close> (the active one is the one
  they change), one control fewer than points while there are points, and no control
  when there is none. So it is for the group that \<open>createGroup\<close> has just made, which
  stays the active group through the sequence.
\<close>

theorem controls_follow_points:
  "controls_match (new_CurveGroup i) \<and>
   (activeTool h = ADD_POINTS \<longrightarrow> controls_match (heap h r) \<longrightarrow>
      controls_match (heap (applyEdits es h) r)) \<and>
   (activeTool h = ADD_POINTS \<longrightarrow>
      activeCurveGroup (applyEdits es (createGroup i h)) = Some (next_ref h) \<and>
      controls_match (heap (applyEdits es (createGroup i h)) (next_ref h)))"
proof (intro conjI impI)
  show n: "controls_match (new_CurveGroup i)"
    by (simp add: controls_match_def new_CurveGroup_def)
  show "controls_match (heap (applyEdits es h) r)"
    if "activeTool h = ADD_POINTS" and "controls_match (heap h r)"
    using that by (rule applyEdits_controls_match)
  have c: "heap (createGroup i h) (next_ref h) = new_CurveGroup i"
    "activeTool (createGroup i h) = activeTool h"
    "activeCurveGroup (createGroup i h) = Some (next_ref h)"
    by (simp_all add: createGroup_def alloc_def)
  show "activeCurveGroup (applyEdits es (createGroup i h)) = Some (next_ref h)"
    if "activeTool h = ADD_POINTS"
    using that applyEdits_active [of "createGroup i h" es] c by simp
  show "controls_match (heap (applyEdits es (createGroup i h)) (next_ref h))"
    if "activeTool h = ADD_POINTS"
    using that applyEdits_controls_match [of "createGroup i h" "next_ref h" es] c n by simp
qed

lemma h_add_fields:
  "activeTool h_add = ADD_POINTS" "activeCurveGroup h_add = Some 0"
  "heap h_add 0 = new_CurveGroup ''a''" "mousePos h_add = new_Point 0 0"
  by (simp_all add: h_add_def createGroup_def alloc_def setActiveTool_def new_DrawingHelper_def)

lemma h_one_fields:
  "activeTool h_one = ADD_POINTS" "activeCurveGroup h_one = Some 0"
  "points (heap h_one 0) = [\<lparr>pt_x = 0, pt_y = 0\<rparr>]" "controls (heap h_one 0) = []"
  "mousePos h_one = \<lparr>pt_x = 100, pt_y = 0\<rparr>"
  by (simp_all add: h_one_def h_add_fields handleMouseDown_ADD_POINTS handleMouseMove_fields
      new_CurveGroup_def canvasWidth_def canvasHeight_def new_Point_def)

lemma h_add_wf: "wf_state h_add"
  by (simp add: h_add_def wf_state_def createGroup_def alloc_def setActiveTool_def
      new_DrawingHelper_def)

lemma h_add_run:
  "points (heap (applyEdits [AddPoint 10 10, AddPoint 100 10, AddPoint 50 60, DeleteLast] h_add) 0)
    = [new_Point 10 10, new_Point 100 10]"
  "length (controls (heap (applyEdits [AddPoint 10 10, AddPoint 100 10, AddPoint 50 60, DeleteLast] h_add) 0)) = 1"
  by (simp_all add: h_add_fields handleMouseDown_ADD_POINTS handleMouseMove_fields
      deleteLastPoint_def new_CurveGroup_def canvasWidth_def canvasHeight_def new_Point_def)

theorem controls_follow_points_witness:
  "activeTool (setActiveTool ADD_POINTS new_DrawingHelper) = ADD_POINTS \<and>
   h_add = createGroup ''a'' (setActiveTool ADD_POINTS new_DrawingHelper) \<and>
   next_ref (setActiveTool ADD_POINTS new_DrawingHelper) = 0 \<and>
   controls_match (heap h_add 0) \<and>
   activeCurveGroup
     (applyEdits [AddPoint 10 10, AddPoint 100 10, AddPoint 50 60, DeleteLast] h_add) = Some 0 \<and>
   controls_match
     (heap (applyEdits [AddPoint 10 10, AddPoint 100 10, AddPoint 50 60, DeleteLast] h_add) 0) \<and>
   length (points
     (heap (applyEdits [AddPoint 10 10, AddPoint 100 10, AddPoint 50 60, DeleteLast] h_add) 0)) = 2 \<and>
   length (controls
     (heap (applyEdits [AddPoint 10 10, AddPoint 100 10, AddPoint 50 60, DeleteLast] h_add) 0)) = 1"
proof -
  have t: "activeTool (setActiveTool ADD_POINTS new_DrawingHelper) = ADD_POINTS"
    and z: "next_ref (setActiveTool ADD_POINTS new_DrawingHelper) = 0"
    by (simp_all add: setActiveTool_def new_DrawingHelper_def)
  have m: "controls_match (heap h_add 0)"
    using controls_follow_points [of "''a''" h_add 0 "[]"] by (simp add: h_add_fields)
  have "activeCurveGroup
     (applyEdits [AddPoint 10 10, AddPoint 100 10, AddPoint 50 60, DeleteLast] h_add) = Some 0 \<and>
    controls_match
     (heap (applyEdits [AddPoint 10 10, AddPoint 100 10, AddPoint 50 60, DeleteLast] h_add) 0)"
    using controls_follow_points
      [of "''a''" "setActiveTool ADD_POINTS new_DrawingHelper" 0
        "[AddPoint 10 10, AddPoint 100 10, AddPoint 50 60, DeleteLast]"]
      t z
    unfolding h_add_def by (simp del: applyEdits.simps applyEdit.simps)
  then show ?thesis
    using m t z h_add_run h_add_def
    by (simp del: applyEdits.simps applyEdit.simps)
qed

text \<open>
  C6, as the code has it: with the add tool, a pointer-down with no active group only
  adds the message; with an active group and the pointer outside the closed rectangle
  \<open>[0, 1024] \<times> [0, 768]\<close> it changes nothing; with the pointer in that rectangle, its
  border included, it appends one point at the pointer position to the active group and
  leaves every other group, the collection, the active reference and the messages as
  they were.
\<close>

theorem add_points_pointer_down:
  assumes t: "activeTool h = ADD_POINTS"
  shows "(activeCurveGroup h = None \<longrightarrow>
            handleMouseDown h = h\<lparr>messages := messages h @
              [''Cannot add point; Please create or select a curve group before adding points.'']\<rparr>) \<and>
         (\<forall>a. activeCurveGroup h = Some a \<longrightarrow>
            (\<not> insideCanvas (mousePos h) \<longrightarrow> handleMouseDown h = h) \<and>
            (insideCanvas (mousePos h) \<longrightarrow>
               points (heap (handleMouseDown h) a) = points (heap h a) @ [mousePos h] \<and>
               gid (heap (handleMouseDown h) a) = gid (heap h a) \<and>
               (\<forall>r. r \<noteq> a \<longrightarrow> heap (handleMouseDown h) r = heap h r) \<and>
               curveGroups (handleMouseDown h) = curveGroups h \<and>
               activeCurveGroup (handleMouseDown h) = Some a \<and>
               messages (handleMouseDown h) = messages h))"
proof (intro conjI allI impI)
  assume "activeCurveGroup h = None"
  then show "handleMouseDown h = h\<lparr>messages := messages h @
              [''Cannot add point; Please create or select a curve group before adding points.'']\<rparr>"
    using t by (simp add: handleMouseDown_def setMessage_def)
next
  fix a assume a: "activeCurveGroup h = Some a" and "\<not> insideCanvas (mousePos h)"
  then show "handleMouseDown h = h"
    by (auto simp: handleMouseDown_ADD_POINTS [OF t a] insideCanvas_def)
next
  fix a assume a: "activeCurveGroup h = Some a" and i: "insideCanvas (mousePos h)"
  from i have n: "\<not> (pt_x (mousePos h) < 0 \<or> pt_x (mousePos h) > canvasWidth \<or>
         pt_y (mousePos h) < 0 \<or> pt_y (mousePos h) > canvasHeight)"
    by (auto simp: insideCanvas_def)
  show "points (heap (handleMouseDown h) a) = points (heap h a) @ [mousePos h]"
    by (simp add: handleMouseDown_ADD_POINTS [OF t a] n)
  show "gid (heap (handleMouseDown h) a) = gid (heap h a)"
    by (simp add: handleMouseDown_ADD_POINTS [OF t a] n)
  show "curveGroups (handleMouseDown h) = curveGroups h"
    by (simp add: handleMouseDown_ADD_POINTS [OF t a] n)
  show "activeCurveGroup (handleMouseDown h) = Some a"
    using a by (simp add: handleMouseDown_ADD_POINTS [OF t a] n)
  show "messages (handleMouseDown h) = messages h"
    by (simp add: handleMouseDown_ADD_POINTS [OF t a] n)
  fix r assume "r \<noteq> a"
  then show "heap (handleMouseDown h) r = heap h r"
    by (simp add: handleMouseDown_ADD_POINTS [OF t a] n)
qed

theorem add_points_pointer_down_witness:
  "activeTool h_one = ADD_POINTS \<and> activeCurveGroup h_one = Some 0 \<and>
   insideCanvas (mousePos h_one) \<and>
   points (heap (handleMouseDown h_one) 0) = [\<lparr>pt_x = 0, pt_y = 0\<rparr>, \<lparr>pt_x = 100, pt_y = 0\<rparr>] \<and>
   curveGroups (handleMouseDown h_one) = curveGroups h_one \<and>
   messages (handleMouseDown h_one) = messages h_one"
proof -
  have i: "insideCanvas (mousePos h_one)"
    by (simp add: h_one_fields insideCanvas_def canvasWidth_def canvasHeight_def)
  show ?thesis
    using add_points_pointer_down [OF h_one_fields(1)] i
    by (simp add: h_one_fields)
qed

text \<open>
  The claim C6 as written fails on the border: the pointer at \<open>(0, 0)\<close> is not strictly
  inside the canvas, and the pointer-down appends a point there.
\<close>

theorem add_points_on_boundary:
  "activeTool h_add = ADD_POINTS \<and> activeCurveGroup h_add = Some 0 \<and>
   mousePos h_add = \<lparr>pt_x = 0, pt_y = 0\<rparr> \<and>
   \<not> strictlyInsideCanvas (mousePos h_add) \<and>
   points (heap h_add 0) = [] \<and>
   points (heap (handleMouseDown h_add) 0) = [\<lparr>pt_x = 0, pt_y = 0\<rparr>]"
  by (simp add: h_add_fields handleMouseDown_ADD_POINTS strictlyInsideCanvas_def
      new_Point_def new_CurveGroup_def canvasWidth_def canvasHeight_def)

text \<open>
  C9: with the add tool, an active group that has a point already and the pointer in
  the canvas, a pointer-down appends exactly one control; its two endpoints are on the
  segment from the previous point to the new one, at 20% and at 80% of the way.
\<close>

theorem add_points_control_handle:
  assumes "activeTool h = ADD_POINTS" and "activeCurveGroup h = Some a"
    and "insideCanvas (mousePos h)" and "points (heap h a) \<noteq> []"
  shows "\<exists>c. controls (heap (handleMouseDown h) a) = controls (heap h a) @ [c] \<and>
     pt_x (point1 c) = pt_x (last (points (heap h a))) + 0.2 * (pt_x (mousePos h) - pt_x (last (points (heap h a)))) \<and>
     pt_y (point1 c) = pt_y (last (points (heap h a))) + 0.2 * (pt_y (mousePos h) - pt_y (last (points (heap h a)))) \<and>
     pt_x (point2 c) = pt_x (last (points (heap h a))) + 0.8 * (pt_x (mousePos h) - pt_x (last (points (heap h a)))) \<and>
     pt_y (point2 c) = pt_y (last (points (heap h a))) + 0.8 * (pt_y (mousePos h) - pt_y (last (points (heap h a))))"
proof -
  from assms(3) have n: "\<not> (pt_x (mousePos h) < 0 \<or> pt_x (mousePos h) > canvasWidth \<or>
         pt_y (mousePos h) < 0 \<or> pt_y (mousePos h) > canvasHeight)"
    by (auto simp: insideCanvas_def)
  show ?thesis
    using assms(4)
    by (simp add: handleMouseDown_ADD_POINTS [OF assms(1,2)] n new_Control_def new_Point_def)
qed

theorem add_points_control_handle_witness:
  "\<exists>c. controls (heap (handleMouseDown h_one) 0) = [c] \<and>
     pt_x (point1 c) = 20 \<and> pt_y (point1 c) = 0 \<and> pt_x (point2 c) = 80 \<and> pt_y (point2 c) = 0"
proof -
  have i: "insideCanvas (mousePos h_one)"
    by (simp add: h_one_fields insideCanvas_def canvasWidth_def canvasHeight_def)
  have p: "points (heap h_one 0) \<noteq> []" by (simp add: h_one_fields)
  show ?thesis
    using add_points_control_handle [OF h_one_fields(1) h_one_fields(2) i p]
    by (simp add: h_one_fields)
qed


section \<open>The drag target of the control tool\<close>

lemma h_three_fields:
  "activeTool h_three = EDIT_CONTROLS" "activeCurveGroup h_three = Some 0"
  "mousePos h_three = \<lparr>pt_x = 110, pt_y = 100\<rparr>" "pointRangeHalf h_three = 8"
  "dragControl h_three = None"
  "controls (heap h_three 0) =
     [\<lparr>point1 = \<lparr>pt_x = 102, pt_y = 100\<rparr>, point2 = \<lparr>pt_x = 108, pt_y = 100\<rparr>\<rparr>,
      \<lparr>point1 = \<lparr>pt_x = 112, pt_y = 100\<rparr>, point2 = \<lparr>pt_x = 118, pt_y = 100\<rparr>\<rparr>]"
  by (simp_all add: h_three_def h_add_fields handleMouseDown_ADD_POINTS handleMouseMove_fields
      handleMouseMove_def setActiveTool_def new_CurveGroup_def canvasWidth_def canvasHeight_def
      new_Point_def new_Control_def h_add_def createGroup_def alloc_def new_DrawingHelper_def)

text \<open>
  C5 at three points clicked at \<open>(100, 100)\<close>, \<open>(110, 100)\<close> and \<open>(120, 100)\<close> and a
  pointer-down of the control tool at \<open>(110, 100)\<close>, pick range 8: the first endpoint in
  range in scan order is the second endpoint of control 0, and the code records the
  first endpoint of control 1.
\<close>

theorem edit_controls_records_later_control:
  "activeTool h_three = EDIT_CONTROLS \<and> activeCurveGroup h_three = Some 0 \<and>
   mousePos h_three = \<lparr>pt_x = 110, pt_y = 100\<rparr> \<and> pointRangeHalf h_three = 8 \<and>
   controls (heap h_three 0) =
     [\<lparr>point1 = \<lparr>pt_x = 102, pt_y = 100\<rparr>, point2 = \<lparr>pt_x = 108, pt_y = 100\<rparr>\<rparr>,
      \<lparr>point1 = \<lparr>pt_x = 112, pt_y = 100\<rparr>, point2 = \<lparr>pt_x = 118, pt_y = 100\<rparr>\<rparr>] \<and>
   firstEndpoint_spec 110 100 8 0 (controls (heap h_three 0)) = Some (0, 1) \<and>
   dragControl (handleMouseDown h_three) = Some (1, 0)"
  by (simp add: h_three_fields handleMouseDown_def searchEndpoints_def inPickRange_def
      reference_onMouseDown_def)

section \<open>The active group reference\<close>

lemma when_defined_None: "when_defined None g h = h"
  by (simp add: when_defined_def)

lemma when_defined_Some: "when_defined (Some x) g h = g x h"
  by (simp add: when_defined_def)

lemma when_defined_field:
  assumes "\<And>x k. f (g x k) = f k"
  shows "f (when_defined v g h) = f h"
  using assms by (cases v) (simp_all add: when_defined_def)

lemma setProperty_active: "activeCurveGroup (setProperty p h) = activeCurveGroup h"
  by (cases p) simp_all

lemma setProperty_curveGroups: "curveGroups (setProperty p h) = curveGroups h"
  by (cases p) simp_all

lemma find_Some_mem: "List.find P xs = Some x \<Longrightarrow> x \<in> set xs"
  by (induction xs) (auto split: if_splits)

lemma active_in_collection_iff:
  "active_in_collection h \<longleftrightarrow> (\<forall>a. activeCurveGroup h = Some a \<longrightarrow> a \<in> set (curveGroups h))"
  by (simp add: active_in_collection_def split: option.splits)

lemma active_createGroup: "active_in_collection (createGroup i h)"
  by (simp add: active_in_collection_iff createGroup_def alloc_def)

lemma curveGroups_setActiveGroupId: "curveGroups (setActiveGroupId i h) = curveGroups h"
  by (simp add: setActiveGroupId_def console_log_def split: option.splits)

lemma active_setActiveGroupId_cases:
  "activeCurveGroup (setActiveGroupId i h) = activeCurveGroup h \<or>
   (\<exists>a. activeCurveGroup (setActiveGroupId i h) = Some a \<and> a \<in> set (curveGroups h))"
  by (auto simp: setActiveGroupId_def console_log_def dest: find_Some_mem split: option.splits)

lemma active_setActiveGroupId:
  "active_in_collection h \<Longrightarrow> active_in_collection (setActiveGroupId i h)"
  using active_setActiveGroupId_cases [of i h]
  by (auto simp: active_in_collection_iff curveGroups_setActiveGroupId split: option.splits)

lemma active_setActiveGroupId_None:
  "activeCurveGroup h = None \<Longrightarrow> active_in_collection (setActiveGroupId i h)"
  by (rule active_setActiveGroupId) (simp add: active_in_collection_iff)

lemma active_deleteGroup:
  "active_in_collection h \<Longrightarrow> active_in_collection (deleteGroup i h)"
  by (auto simp: active_in_collection_iff deleteGroup_def Let_def split: option.splits)

lemma deleteGroup_active:
  "activeCurveGroup h = Some a \<Longrightarrow> gid (heap h a) = i \<Longrightarrow>
     activeCurveGroup (deleteGroup i h) = None"
  "activeCurveGroup h = Some a \<Longrightarrow> gid (heap h a) \<noteq> i \<Longrightarrow>
     activeCurveGroup (deleteGroup i h) = Some a"
  "activeCurveGroup h = None \<Longrightarrow> activeCurveGroup (deleteGroup i h) = None"
  by (simp_all add: deleteGroup_def Let_def)

lemma loadState_active:
  "activeCurveGroup (loadState state h) =
   activeCurveGroup (when_defined (s_activeGroupId state) setActiveGroupId
     (when_defined (s_curveGroups state) loadCurveGroups
       (when_defined (s_originPos state) (\<lambda>v h. h\<lparr>originPos := v\<rparr>) h)))"
  by (simp add: loadState_def Let_def when_defined_field setProperty_active loadReference_def)

lemma loadState_curveGroups:
  "curveGroups (loadState state h) =
   curveGroups (when_defined (s_activeGroupId state) setActiveGroupId
     (when_defined (s_curveGroups state) loadCurveGroups
       (when_defined (s_originPos state) (\<lambda>v h. h\<lparr>originPos := v\<rparr>) h)))"
  by (simp add: loadState_def Let_def when_defined_field setProperty_curveGroups loadReference_def)

lemma loadGroups_active: "activeCurveGroup (snd (loadGroups gs h)) = activeCurveGroup h"
  by (induction gs arbitrary: h) (simp_all add: alloc_def Let_def case_prod_beta)

lemma loadCurveGroups_active: "activeCurveGroup (loadCurveGroups gs h) = activeCurveGroup h"
  by (simp add: loadCurveGroups_def case_prod_beta loadGroups_active)

lemma active_loadState_cases:
  "activeCurveGroup (loadState state h) = activeCurveGroup h \<or>
   active_in_collection (loadState state h)"
proof -
  let ?h2 = "when_defined (s_curveGroups state) loadCurveGroups
       (when_defined (s_originPos state) (\<lambda>v h. h\<lparr>originPos := v\<rparr>) h)"
  let ?h3 = "when_defined (s_activeGroupId state) setActiveGroupId ?h2"
  have a2: "activeCurveGroup ?h2 = activeCurveGroup h"
    by (simp add: when_defined_field loadCurveGroups_active)
  have c3: "curveGroups ?h3 = curveGroups ?h2"
    by (simp add: when_defined_field curveGroups_setActiveGroupId)
  have "activeCurveGroup ?h3 = activeCurveGroup ?h2 \<or>
      (\<exists>a. activeCurveGroup ?h3 = Some a \<and> a \<in> set (curveGroups ?h2))"
    using active_setActiveGroupId_cases [of _ ?h2]
    by (cases "s_activeGroupId state") (simp_all add: when_defined_def)
  then show ?thesis
    using a2 c3
    by (auto simp: loadState_active loadState_curveGroups active_in_collection_iff)
qed

lemma active_loadState_no_groups:
  assumes "s_curveGroups state = None" and "active_in_collection h"
  shows "active_in_collection (loadState state h)"
proof -
  let ?h2 = "when_defined (s_curveGroups state) loadCurveGroups
       (when_defined (s_originPos state) (\<lambda>v h. h\<lparr>originPos := v\<rparr>) h)"
  have "activeCurveGroup ?h2 = activeCurveGroup h" and "curveGroups ?h2 = curveGroups h"
    using assms(1) by (simp_all add: when_defined_field when_defined_None)
  then have "active_in_collection ?h2"
    using assms(2) by (simp add: active_in_collection_iff split: option.splits)
  then have "active_in_collection (when_defined (s_activeGroupId state) setActiveGroupId ?h2)"
    by (cases "s_activeGroupId state") (simp_all add: when_defined_def active_setActiveGroupId)
  then show ?thesis
    by (simp add: active_in_collection_iff loadState_active loadState_curveGroups)
qed

text \<open>
  C7, as the code has it: after \<open>createGroup\<close> the active reference is a group of the
  collection; \<open>setActiveGroupId\<close> and \<open>deleteGroup\<close> keep it none or in the
  collection; deleting the id of the active group sets it to none and deleting another
  id leaves it unchanged. \<open>loadState\<close> either leaves the reference as it was or
  resolves it in the collection, so the property holds after a load into an editor with
  no active group, and after a load of a snapshot without curve groups.
\<close>

theorem active_reference_maintained:
  "active_in_collection (createGroup i h) \<and>
   (active_in_collection h \<longrightarrow>
      active_in_collection (setActiveGroupId i h) \<and> active_in_collection (deleteGroup i h)) \<and>
   (\<forall>a. activeCurveGroup h = Some a \<longrightarrow>
      activeCurveGroup (deleteGroup i h) = (if gid (heap h a) = i then None else Some a)) \<and>
   (activeCurveGroup (loadState state h) = activeCurveGroup h \<or>
      active_in_collection (loadState state h)) \<and>
   (activeCurveGroup h = None \<longrightarrow> active_in_collection (loadState state h)) \<and>
   (s_curveGroups state = None \<longrightarrow> active_in_collection h \<longrightarrow>
      active_in_collection (loadState state h))"
proof (intro conjI impI allI)
  show "active_in_collection (createGroup i h)" by (rule active_createGroup)
  show "activeCurveGroup (loadState state h) = activeCurveGroup h \<or>
      active_in_collection (loadState state h)"
    by (rule active_loadState_cases)
next
  assume "active_in_collection h"
  then show "active_in_collection (setActiveGroupId i h)" by (rule active_setActiveGroupId)
next
  assume "active_in_collection h"
  then show "active_in_collection (deleteGroup i h)" by (rule active_deleteGroup)
next
  fix a assume "activeCurveGroup h = Some a"
  then show "activeCurveGroup (deleteGroup i h) = (if gid (heap h a) = i then None else Some a)"
    by (simp add: deleteGroup_active)
next
  assume "activeCurveGroup h = None"
  then show "active_in_collection (loadState state h)"
    using active_loadState_cases [of state h] by (auto simp: active_in_collection_iff)
next
  assume "s_curveGroups state = None" and "active_in_collection h"
  then show "active_in_collection (loadState state h)" by (rule active_loadState_no_groups)
qed

text \<open>
  The claim C7 as written fails for \<open>loadState\<close>: loading the snapshot of an empty
  editor into an editor whose active group is \<open>''a''\<close> replaces the collection by the
  empty one and keeps the reference to the old group.
\<close>

theorem load_keeps_removed_active_group:
  "active_in_collection (createGroup ''a'' new_DrawingHelper) \<and>
   activeCurveGroup (loadState (stateSnapshot 0 new_DrawingHelper) (createGroup ''a'' new_DrawingHelper))
     = Some 0 \<and>
   curveGroups (loadState (stateSnapshot 0 new_DrawingHelper) (createGroup ''a'' new_DrawingHelper))
     = [] \<and>
   \<not> active_in_collection
       (loadState (stateSnapshot 0 new_DrawingHelper) (createGroup ''a'' new_DrawingHelper))"
proof -
  have s: "s_curveGroups (stateSnapshot 0 new_DrawingHelper) = Some []"
    "s_activeGroupId (stateSnapshot 0 new_DrawingHelper) = None"
    by (simp_all add: stateSnapshot_def new_DrawingHelper_def)
  have n: "activeCurveGroup (createGroup ''a'' new_DrawingHelper) = Some 0"
    by (simp add: createGroup_def alloc_def new_DrawingHelper_def)
  have a: "activeCurveGroup (loadState (stateSnapshot 0 new_DrawingHelper)
      (createGroup ''a'' new_DrawingHelper)) = Some 0"
    by (simp add: loadState_active s when_defined_None when_defined_Some when_defined_field
        loadCurveGroups_active n)
  have c: "curveGroups (loadState (stateSnapshot 0 new_DrawingHelper)
      (createGroup ''a'' new_DrawingHelper)) = []"
    by (simp add: loadState_curveGroups s when_defined_None when_defined_Some
        loadCurveGroups_def)
  have "\<not> active_in_collection
       (loadState (stateSnapshot 0 new_DrawingHelper) (createGroup ''a'' new_DrawingHelper))"
    using a c by (simp add: active_in_collection_iff)
  then show ?thesis
    using a c active_createGroup [of "''a''" new_DrawingHelper] by simp
qed

theorem active_reference_maintained_witness:
  "active_in_collection h_add \<and> activeCurveGroup h_add = Some 0 \<and>
   active_in_collection (setActiveGroupId ''b'' h_add) \<and>
   active_in_collection (deleteGroup ''b'' h_add) \<and>
   activeCurveGroup (deleteGroup ''a'' h_add) = None \<and>
   activeCurveGroup (deleteGroup ''b'' h_add) = Some 0 \<and>
   activeCurveGroup new_DrawingHelper = None \<and>
   active_in_collection (loadState (stateSnapshot 0 h_add) new_DrawingHelper) \<and>
   s_curveGroups ((stateSnapshot 0 h_add)\<lparr>s_curveGroups := None\<rparr>) = None \<and>
   active_in_collection (loadState ((stateSnapshot 0 h_add)\<lparr>s_curveGroups := None\<rparr>) h_add)"
proof -
  have a: "active_in_collection h_add"
    by (simp add: h_add_def active_createGroup)
  have g: "gid (heap h_add 0) = ''a''"
    by (simp add: h_add_fields new_CurveGroup_def)
  have n: "activeCurveGroup new_DrawingHelper = None"
    by (simp add: new_DrawingHelper_def)
  have s: "s_curveGroups ((stateSnapshot 0 h_add)\<lparr>s_curveGroups := None\<rparr>) = None"
    by simp
  show ?thesis
    using active_reference_maintained [of "''b''" h_add]
      active_reference_maintained [of "''a''" h_add]
      active_reference_maintained [of _ new_DrawingHelper "stateSnapshot 0 h_add"]
      active_reference_maintained [of _ h_add "(stateSnapshot 0 h_add)\<lparr>s_curveGroups := None\<rparr>"]
      a g n s h_add_fields(2)
    by simp
qed

section \<open>A drag that is not released\<close>

lemma update_fields:
  "heap (update h) = heap h" "curveGroups (update h) = curveGroups h"
  "originPos (update h) = originPos h" "activeCurveGroup (update h) = activeCurveGroup h"
  "dragStart (update h) = dragStart h" "dragPoint (update h) = dragPoint h"
  "dragControl (update h) = dragControl h" "dragOrigin (update h) = dragOrigin h"
  "activeTool (update h) = activeTool h" "mousePos (update h) = mousePos h"
  "reference (update h) = reference h"
  by (simp_all add: update_def console_log_def split: option.splits)

lemma handleMouseMove_keeps:
  "curveGroups (handleMouseMove x y rx ry h) = curveGroups h"
  "originPos (handleMouseMove x y rx ry h) = originPos h"
  "dragStart (handleMouseMove x y rx ry h) = dragStart h"
  "dragPoint (handleMouseMove x y rx ry h) = dragPoint h"
  "dragControl (handleMouseMove x y rx ry h) = dragControl h"
  "dragOrigin (handleMouseMove x y rx ry h) = dragOrigin h"
  "reference (handleMouseMove x y rx ry h) = reference h"
  by (simp_all add: handleMouseMove_def)

lemma dragStep_keeps:
  "heap (dragStep e h) = heap h" "curveGroups (dragStep e h) = curveGroups h"
  "originPos (dragStep e h) = originPos h" "activeCurveGroup (dragStep e h) = activeCurveGroup h"
  "dragStart (dragStep e h) = dragStart h" "dragPoint (dragStep e h) = dragPoint h"
  "dragControl (dragStep e h) = dragControl h" "dragOrigin (dragStep e h) = dragOrigin h"
  "activeTool (dragStep e h) = activeTool h" "reference (dragStep e h) = reference h"
  by (cases e; simp add: update_fields handleMouseMove_fields handleMouseMove_keeps)+

lemma dragSteps_keeps:
  "heap (dragSteps es h) = heap h \<and> curveGroups (dragSteps es h) = curveGroups h \<and>
   originPos (dragSteps es h) = originPos h \<and>
   activeCurveGroup (dragSteps es h) = activeCurveGroup h \<and>
   dragStart (dragSteps es h) = dragStart h \<and> dragPoint (dragSteps es h) = dragPoint h \<and>
   dragControl (dragSteps es h) = dragControl h \<and> dragOrigin (dragSteps es h) = dragOrigin h \<and>
   activeTool (dragSteps es h) = activeTool h \<and> reference (dragSteps es h) = reference h"
  by (induction es arbitrary: h) (simp_all add: dragStep_keeps)

lemma reference_onMouseDown_keeps:
  "heap (reference_onMouseDown h) = heap h" "curveGroups (reference_onMouseDown h) = curveGroups h"
  "originPos (reference_onMouseDown h) = originPos h"
  "activeTool (reference_onMouseDown h) = activeTool h"
  by (simp_all add: reference_onMouseDown_def)

lemma handleMouseDown_edit_keeps:
  assumes "activeTool h = EDIT_POINTS \<or> activeTool h = EDIT_CONTROLS \<or> activeTool h = EDIT_ORIGIN_POINT"
  shows "heap (handleMouseDown h) = heap h \<and> curveGroups (handleMouseDown h) = curveGroups h \<and>
    originPos (handleMouseDown h) = originPos h \<and> activeTool (handleMouseDown h) = activeTool h"
  using assms
proof (elim disjE)
  assume "activeTool h = EDIT_POINTS"
  then show ?thesis
    by (simp add: handleMouseDown_def Let_def reference_onMouseDown_keeps split: option.splits)
next
  assume "activeTool h = EDIT_CONTROLS"
  then show ?thesis
    by (simp add: handleMouseDown_def Let_def reference_onMouseDown_keeps split: option.splits)
next
  assume "activeTool h = EDIT_ORIGIN_POINT"
  then show ?thesis
    by (simp add: handleMouseDown_def Let_def reference_onMouseDown_keeps)
qed

text \<open>
  C3: after a pointer-down with the point, control or origin tool, any sequence of
  pointer moves and update passes leaves the groups (points and control endpoints), the
  collection and the origin as they were before the pointer-down, and keeps the drag
  target and its anchor. The pass draws the dragged point, control endpoint or origin
  at its stored position plus the pointer position minus the anchor.
\<close>

theorem drag_without_release_keeps_coordinates:
  assumes "activeTool h0 = EDIT_POINTS \<or> activeTool h0 = EDIT_CONTROLS \<or>
     activeTool h0 = EDIT_ORIGIN_POINT"
  shows "heap (dragSteps es (handleMouseDown h0)) = heap h0 \<and>
     curveGroups (dragSteps es (handleMouseDown h0)) = curveGroups h0 \<and>
     originPos (dragSteps es (handleMouseDown h0)) = originPos h0 \<and>
     dragPoint (dragSteps es (handleMouseDown h0)) = dragPoint (handleMouseDown h0) \<and>
     dragControl (dragSteps es (handleMouseDown h0)) = dragControl (handleMouseDown h0) \<and>
     dragOrigin (dragSteps es (handleMouseDown h0)) = dragOrigin (handleMouseDown h0) \<and>
     dragStart (dragSteps es (handleMouseDown h0)) = dragStart (handleMouseDown h0) \<and>
     (\<forall>i s p. activeTool h0 = EDIT_POINTS \<and> dragPoint (handleMouseDown h0) = Some i \<and>
        dragStart (handleMouseDown h0) = Some s \<longrightarrow>
        pointPreview (dragSteps es (handleMouseDown h0)) i p =
          Inr \<lparr>pt_x = pt_x p + (pt_x (mousePos (dragSteps es (handleMouseDown h0))) - pt_x s),
               pt_y = pt_y p + (pt_y (mousePos (dragSteps es (handleMouseDown h0))) - pt_y s)\<rparr>) \<and>
     (\<forall>i s c. dragControl (handleMouseDown h0) = Some (i, 0) \<and>
        dragStart (handleMouseDown h0) = Some s \<longrightarrow>
        getEditControlPoints (dragSteps es (handleMouseDown h0)) c i =
          Inr \<lparr>sc_x1 = pt_x (point1 c) + (pt_x (mousePos (dragSteps es (handleMouseDown h0))) - pt_x s),
               sc_y1 = pt_y (point1 c) + (pt_y (mousePos (dragSteps es (handleMouseDown h0))) - pt_y s),
               sc_x2 = pt_x (point2 c), sc_y2 = pt_y (point2 c)\<rparr>) \<and>
     (\<forall>i s c. dragControl (handleMouseDown h0) = Some (i, 1) \<and>
        dragStart (handleMouseDown h0) = Some s \<longrightarrow>
        getEditControlPoints (dragSteps es (handleMouseDown h0)) c i =
          Inr \<lparr>sc_x1 = pt_x (point1 c), sc_y1 = pt_y (point1 c),
               sc_x2 = pt_x (point2 c) + (pt_x (mousePos (dragSteps es (handleMouseDown h0))) - pt_x s),
               sc_y2 = pt_y (point2 c) + (pt_y (mousePos (dragSteps es (handleMouseDown h0))) - pt_y s)\<rparr>) \<and>
     (\<forall>s. dragOrigin (handleMouseDown h0) \<and> dragStart (handleMouseDown h0) = Some s \<longrightarrow>
        originPreview (dragSteps es (handleMouseDown h0)) =
          Inr \<lparr>pt_x = pt_x (originPos h0) + (pt_x (mousePos (dragSteps es (handleMouseDown h0))) - pt_x s),
               pt_y = pt_y (originPos h0) + (pt_y (mousePos (dragSteps es (handleMouseDown h0))) - pt_y s)\<rparr>)"
proof -
  let ?h1 = "handleMouseDown h0"
  let ?h = "dragSteps es ?h1"
  note k = dragSteps_keeps [of es ?h1]
  note d = handleMouseDown_edit_keeps [OF assms]
  have c: "heap ?h = heap h0" "curveGroups ?h = curveGroups h0" "originPos ?h = originPos h0"
    "activeTool ?h = activeTool h0"
    using k d by simp_all
  have t: "dragPoint ?h = dragPoint ?h1" "dragControl ?h = dragControl ?h1"
    "dragOrigin ?h = dragOrigin ?h1" "dragStart ?h = dragStart ?h1"
    using k by simp_all
  have p: "\<forall>i s p. activeTool h0 = EDIT_POINTS \<and> dragPoint ?h1 = Some i \<and>
        dragStart ?h1 = Some s \<longrightarrow>
        pointPreview ?h i p =
          Inr \<lparr>pt_x = pt_x p + (pt_x (mousePos ?h) - pt_x s),
               pt_y = pt_y p + (pt_y (mousePos ?h) - pt_y s)\<rparr>"
    by (simp add: pointPreview_def c t)
  have c0: "\<forall>i s c. dragControl ?h1 = Some (i, 0) \<and> dragStart ?h1 = Some s \<longrightarrow>
        getEditControlPoints ?h c i =
          Inr \<lparr>sc_x1 = pt_x (point1 c) + (pt_x (mousePos ?h) - pt_x s),
               sc_y1 = pt_y (point1 c) + (pt_y (mousePos ?h) - pt_y s),
               sc_x2 = pt_x (point2 c), sc_y2 = pt_y (point2 c)\<rparr>"
    by (simp add: getEditControlPoints_def t)
  have c1: "\<forall>i s c. dragControl ?h1 = Some (i, 1) \<and> dragStart ?h1 = Some s \<longrightarrow>
        getEditControlPoints ?h c i =
          Inr \<lparr>sc_x1 = pt_x (point1 c), sc_y1 = pt_y (point1 c),
               sc_x2 = pt_x (point2 c) + (pt_x (mousePos ?h) - pt_x s),
               sc_y2 = pt_y (point2 c) + (pt_y (mousePos ?h) - pt_y s)\<rparr>"
    by (simp add: getEditControlPoints_def t)
  have o: "\<forall>s. dragOrigin ?h1 \<and> dragStart ?h1 = Some s \<longrightarrow>
        originPreview ?h =
          Inr \<lparr>pt_x = pt_x (originPos h0) + (pt_x (mousePos ?h) - pt_x s),
               pt_y = pt_y (originPos h0) + (pt_y (mousePos ?h) - pt_y s)\<rparr>"
    by (simp add: originPreview_def c t)
  show ?thesis
    using c(1,2,3) t p c0 c1 o by blast
qed

lemma h_drag_down:
  "handleMouseDown h_drag =
     new_DrawingHelper
       \<lparr>heap := (\<lambda>_. new_CurveGroup [])
          (0 := \<lparr>points = [\<lparr>pt_x = 100, pt_y = 100\<rparr>], controls = [], gid = ''a''\<rparr>),
        next_ref := 1, curveGroups := [0], activeCurveGroup := Some 0,
        dragStart := Some \<lparr>pt_x = 102, pt_y = 99\<rparr>, dragPoint := Some 0,
        activeTool := EDIT_POINTS, mousePos := \<lparr>pt_x = 102, pt_y = 99\<rparr>\<rparr>"
  by (simp add: h_drag_def h_add_def handleMouseDown_def handleMouseMove_def setActiveTool_def
      createGroup_def alloc_def new_DrawingHelper_def new_CurveGroup_def new_Point_def
      canvasWidth_def canvasHeight_def reference_onMouseDown_def ReferenceImage_onMouseDown_def
      new_ReferenceImage_def inPickRange_def Let_def)

lemma h_drag_steps:
  "canvas (dragSteps [PointerMove 130 120 0 0, UpdatePass, PointerMove 140 150 0 0, UpdatePass]
      (handleMouseDown h_drag)) =
     [ClearRect 0 0 1024 768, SetLineWidth 2, SetStrokeStyle ''none'', SetFillStyle ''#ff0099'',
      SetStrokeStyle ''#ff0099'', BeginPath, SetGlobalAlpha 1, FillRect 130 143 16 16,
      MoveTo 138 151, Stroke, SetGlobalAlpha 1]"
  "mousePos (dragSteps [PointerMove 130 120 0 0, UpdatePass, PointerMove 140 150 0 0, UpdatePass]
      (handleMouseDown h_drag)) = \<lparr>pt_x = 140, pt_y = 150\<rparr>"
  by (simp_all add: h_drag_down handleMouseMove_def update_def updateDrawing_def drawGroup_def
      drawPoint_def pointPreview_def drawOrigin_def ReferenceImage_update_def then_draw_def
      calls_def throws_def new_DrawingHelper_def new_ReferenceImage_def canvasWidth_def
      canvasHeight_def Let_def)

theorem drag_without_release_keeps_coordinates_witness:
  "activeTool h_drag = EDIT_POINTS \<and>
   points (heap h_drag 0) = [\<lparr>pt_x = 100, pt_y = 100\<rparr>] \<and>
   dragPoint (handleMouseDown h_drag) = Some 0 \<and>
   dragStart (handleMouseDown h_drag) = Some \<lparr>pt_x = 102, pt_y = 99\<rparr> \<and>
   points (heap (dragSteps [PointerMove 130 120 0 0, UpdatePass, PointerMove 140 150 0 0, UpdatePass]
      (handleMouseDown h_drag)) 0) = [\<lparr>pt_x = 100, pt_y = 100\<rparr>] \<and>
   pointPreview (dragSteps [PointerMove 130 120 0 0, UpdatePass, PointerMove 140 150 0 0, UpdatePass]
      (handleMouseDown h_drag)) 0 \<lparr>pt_x = 100, pt_y = 100\<rparr> = Inr \<lparr>pt_x = 138, pt_y = 151\<rparr> \<and>
   canvas (dragSteps [PointerMove 130 120 0 0, UpdatePass, PointerMove 140 150 0 0, UpdatePass]
      (handleMouseDown h_drag)) =
     [ClearRect 0 0 1024 768, SetLineWidth 2, SetStrokeStyle ''none'', SetFillStyle ''#ff0099'',
      SetStrokeStyle ''#ff0099'', BeginPath, SetGlobalAlpha 1, FillRect 130 143 16 16,
      MoveTo 138 151, Stroke, SetGlobalAlpha 1]"
proof -
  have t: "activeTool h_drag = EDIT_POINTS"
    by (simp add: h_drag_def handleMouseMove_def setActiveTool_def)
  have g: "points (heap h_drag 0) = [\<lparr>pt_x = 100, pt_y = 100\<rparr>]"
    by (simp add: h_drag_def handleMouseMove_def setActiveTool_def h_add_fields
        handleMouseDown_ADD_POINTS new_CurveGroup_def canvasWidth_def canvasHeight_def)
  have d: "dragPoint (handleMouseDown h_drag) = Some 0"
    "dragStart (handleMouseDown h_drag) = Some \<lparr>pt_x = 102, pt_y = 99\<rparr>"
    by (simp_all add: h_drag_down)
  from t have e: "activeTool h_drag = EDIT_POINTS \<or> activeTool h_drag = EDIT_CONTROLS \<or>
     activeTool h_drag = EDIT_ORIGIN_POINT"
    by simp
  show ?thesis
    using drag_without_release_keeps_coordinates [OF e,
        of "[PointerMove 130 120 0 0, UpdatePass, PointerMove 140 150 0 0, UpdatePass]"]
      t g d h_drag_steps
    by (simp del: dragSteps.simps dragStep.simps)
qed

section \<open>The SVG document\<close>

lemma toFixed_in_range:
  "0 \<le> f \<Longrightarrow> f \<le> 100 \<Longrightarrow> toFixed t f x = Inr (fixed_spec t f x)"
  by (simp add: fixed_spec_def toFixed_def Let_def)

lemma getSVGCoords_in_range:
  "0 \<le> f \<Longrightarrow> f \<le> 100 \<Longrightarrow> getSVGCoords t p f = Inr (pair_spec t f p)"
  by (simp add: getSVGCoords_def pair_spec_def toFixed_in_range)

lemma pathCommands_in_range:
  assumes "0 \<le> f" and "f \<le> 100" and "length ps - 1 \<le> length cs" and "1 \<le> i"
  shows "pathCommands t f ps cs i pd =
     Inr (pd @ map (\<lambda>j. ''C'' @ pair_spec t f (point1 (cs ! (j - 1))) @ '', '' @
                         pair_spec t f (point2 (cs ! (j - 1))) @ '', '' @
                         pair_spec t f (ps ! j)) [i..<length ps])"
  using assms
proof (induction t f ps cs i pd rule: pathCommands.induct)
  case (1 t f ps cs i pd)
  show ?case
  proof (cases "i < length ps")
    case True
    then have c: "i - 1 < length cs" using "1.prems"(3,4) by linarith
    have u: "[i..<length ps] = i # [Suc i..<length ps]"
      using True by (simp add: upt_conv_Cons)
    have "pathCommands t f ps cs i pd =
        pathCommands t f ps cs (Suc i)
          (pd @ [''C'' @ pair_spec t f (point1 (cs ! (i - 1))) @ '', '' @
                 pair_spec t f (point2 (cs ! (i - 1))) @ '', '' @ pair_spec t f (ps ! i)])"
      using True c "1.prems"(1,2)
      by (subst pathCommands.simps) (simp add: getSVGCoords_in_range)
    also have "\<dots> = Inr ((pd @ [''C'' @ pair_spec t f (point1 (cs ! (i - 1))) @ '', '' @
                 pair_spec t f (point2 (cs ! (i - 1))) @ '', '' @ pair_spec t f (ps ! i)]) @
          map (\<lambda>j. ''C'' @ pair_spec t f (point1 (cs ! (j - 1))) @ '', '' @
                         pair_spec t f (point2 (cs ! (j - 1))) @ '', '' @
                         pair_spec t f (ps ! j)) [Suc i..<length ps])"
      using True c "1.prems"
      by (intro "1.IH") (simp_all add: getSVGCoords_in_range)
    finally show ?thesis by (simp add: u)
  next
    case False
    then show ?thesis by (subst pathCommands.simps) simp
  qed
qed

lemma index_map_zip:
  assumes "length ps - 1 \<le> length cs"
  shows "map (\<lambda>j. F (cs ! (j - 1)) (ps ! j)) [1..<length ps] =
     map (\<lambda>(p, c). F c p) (zip (tl ps) cs)"
proof (rule nth_equalityI)
  show "length (map (\<lambda>j. F (cs ! (j - 1)) (ps ! j)) [1..<length ps]) =
      length (map (\<lambda>(p, c). F c p) (zip (tl ps) cs))"
    using assms by simp
next
  fix k assume "k < length (map (\<lambda>j. F (cs ! (j - 1)) (ps ! j)) [1..<length ps])"
  then have k: "k < length ps - 1" by simp
  then have "k < length (tl ps)" and "k < length cs" using assms by simp_all
  then show "map (\<lambda>j. F (cs ! (j - 1)) (ps ! j)) [1..<length ps] ! k =
      map (\<lambda>(p, c). F c p) (zip (tl ps) cs) ! k"
    using k by (simp add: nth_tl)
qed

lemma groupPath_in_range:
  assumes "0 \<le> f" and "f \<le> 100" and "length (points g) - 1 \<le> length (controls g)"
    and "length (points g) > 1"
  shows "groupPath t f g = Inr (groupPath_spec t f g)"
proof -
  have h: "points g ! 0 = hd (points g)"
    using assms(4) by (cases "points g") simp_all
  have z: "map (\<lambda>j. ''C'' @ pair_spec t f (point1 (controls g ! (j - 1))) @ '', '' @
                         pair_spec t f (point2 (controls g ! (j - 1))) @ '', '' @
                         pair_spec t f (points g ! j)) [1..<length (points g)] =
      map (\<lambda>(p, c). ''C'' @ pair_spec t f (point1 c) @ '', '' @
                        pair_spec t f (point2 c) @ '', '' @ pair_spec t f p)
          (zip (tl (points g)) (controls g))"
    using index_map_zip [OF assms(3),
      of "\<lambda>c p. ''C'' @ pair_spec t f (point1 c) @ '', '' @
                        pair_spec t f (point2 c) @ '', '' @ pair_spec t f p"]
    by simp
  have p0: "pathCommands t f (points g) (controls g) 1 [''M'' @ pair_spec t f (hd (points g))] =
      Inr ([''M'' @ pair_spec t f (hd (points g))] @
           map (\<lambda>j. ''C'' @ pair_spec t f (point1 (controls g ! (j - 1))) @ '', '' @
                         pair_spec t f (point2 (controls g ! (j - 1))) @ '', '' @
                         pair_spec t f (points g ! j)) [1..<length (points g)])"
    by (rule pathCommands_in_range [OF assms(1,2,3)]) simp
  have p: "pathCommands t f (points g) (controls g) 1 [''M'' @ pair_spec t f (hd (points g))] =
      Inr ((''M'' @ pair_spec t f (hd (points g))) #
           map (\<lambda>(p, c). ''C'' @ pair_spec t f (point1 c) @ '', '' @
                        pair_spec t f (point2 c) @ '', '' @ pair_spec t f p)
             (zip (tl (points g)) (controls g)))"
    unfolding p0 z by simp
  show ?thesis
    by (simp only: groupPath_def h getSVGCoords_in_range [OF assms(1,2)] sum.case p
        pathData_spec_def groupPath_spec_def)
qed

lemma map_result_all_ok:
  assumes "\<And>x. x \<in> set xs \<Longrightarrow> f x = Inr (g x)"
  shows "map_result f xs = Inr (map g xs)"
  using assms by (induction xs) simp_all

text \<open>
  C8, as the code has it: with a precision from 0 to 100 and at least one control for
  each segment of each group, \<open>getSVGString\<close> returns the document of the
  specification: one path element for each group with more than one point, its \<open>d\<close>
  attribute an absolute move to the first point and one cubic command for each later
  point, with the endpoints of the segment's control, every pair as \<open>y x\<close> at the
  configured precision.
\<close>

theorem getSVGString_paths:
  assumes "0 \<le> outputPrecision h" and "outputPrecision h \<le> 100"
    and "\<forall>g \<in> set (groups_of h). length (points g) - 1 \<le> length (controls g)"
  shows "getSVGString toString h = Inr (svg_spec toString h)"
proof -
  have "map_result (groupPath toString (outputPrecision h))
             (filter (\<lambda>g. length (points g) > 1) (groups_of h)) =
     Inr (map (groupPath_spec toString (outputPrecision h))
             (filter (\<lambda>g. length (points g) > 1) (groups_of h)))"
    using assms by (intro map_result_all_ok groupPath_in_range) simp_all
  then show ?thesis
    by (simp add: getSVGString_def svg_spec_def)
qed

lemma h_two_fields:
  "outputPrecision h_two = 2" "mainColor h_two = ''#ff0099''"
  "groups_of h_two =
     [\<lparr>points = [\<lparr>pt_x = 0, pt_y = 0\<rparr>, \<lparr>pt_x = 10, pt_y = 20\<rparr>],
       controls = [\<lparr>point1 = \<lparr>pt_x = 2, pt_y = 4\<rparr>, point2 = \<lparr>pt_x = 8, pt_y = 16\<rparr>\<rparr>],
       gid = ''a''\<rparr>]"
  by (simp_all add: h_two_def h_add_fields handleMouseDown_ADD_POINTS handleMouseMove_fields
      handleMouseMove_def new_CurveGroup_def canvasWidth_def canvasHeight_def groups_of_def
      new_Point_def new_Control_def h_add_def createGroup_def alloc_def new_DrawingHelper_def
      setActiveTool_def)

lemma fixed_examples:
  "fixed_spec t 2 0 = ''0.00''" "fixed_spec t 2 2 = ''2.00''" "fixed_spec t 2 4 = ''4.00''"
  "fixed_spec t 2 8 = ''8.00''" "fixed_spec t 2 16 = ''16.00''" "fixed_spec t 2 10 = ''10.00''"
  "fixed_spec t 2 20 = ''20.00''"
  by (simp_all add: fixed_spec_def toFixed_def digits.simps digit_def Let_def)

theorem getSVGString_paths_witness:
  \<open>0 \<le> outputPrecision h_two \<and> outputPrecision h_two \<le> 100 \<and>
   getSVGString (\<lambda>x. []) h_two =
     Inr (''<svg xmlns="http://www.w3.org/2000/svg" viewBox="0 0 1024 768" fill="none" stroke="#ff0099">'' @
          [CHR 0x0A, CHR 0x09] @
          ''<path d="M0.00 0.00 C4.00 2.00, 16.00 8.00, 20.00 10.00" />'' @
          [CHR 0x0A] @ ''</svg>'')\<close>
proof -
  have p: "0 \<le> outputPrecision h_two" "outputPrecision h_two \<le> 100"
    by (simp_all add: h_two_fields)
  have c: "\<forall>g \<in> set (groups_of h_two). length (points g) - 1 \<le> length (controls g)"
    by (simp add: h_two_fields)
  show ?thesis
    using getSVGString_paths [OF p c, of "\<lambda>x. []"]
    by (simp add: h_two_fields svg_spec_def groupPath_spec_def pathData_spec_def pair_spec_def
        fixed_examples svgOpen_def)
qed

text \<open>
  The claim C8 as written fails where the formatting throws: at precision 101 on the
  same group (\<open>toFixed\<close> takes 0 to 100 digits), and on a loaded group with two points
  and no control.
\<close>

theorem getSVGString_throws:
  "getSVGString (\<lambda>x. []) (setProperty (P_outputPrecision 101) h_two) = Inl RangeError \<and>
   getSVGString (\<lambda>x. [])
     (loadCurveGroups
        [\<lparr>sg_id = ''a'', sg_points = [\<lparr>pt_x = 0, pt_y = 0\<rparr>, \<lparr>pt_x = 10, pt_y = 20\<rparr>],
          sg_controls = []\<rparr>] new_DrawingHelper) = Inl TypeError"
proof
  have g: "groups_of (h_two\<lparr>outputPrecision := 101\<rparr>) = groups_of h_two"
    by (simp add: groups_of_def)
  show "getSVGString (\<lambda>x. []) (setProperty (P_outputPrecision 101) h_two) = Inl RangeError"
    by (simp add: getSVGString_def g h_two_fields groupPath_def getSVGCoords_def toFixed_def)
  have l: "groups_of (loadCurveGroups
        [\<lparr>sg_id = ''a'', sg_points = [\<lparr>pt_x = 0, pt_y = 0\<rparr>, \<lparr>pt_x = 10, pt_y = 20\<rparr>],
          sg_controls = []\<rparr>] new_DrawingHelper) =
      [\<lparr>points = [\<lparr>pt_x = 0, pt_y = 0\<rparr>, \<lparr>pt_x = 10, pt_y = 20\<rparr>], controls = [], gid = ''a''\<rparr>]"
    by (simp add: groups_of_def loadCurveGroups_def alloc_def groupInstance_def
        new_CurveGroup_def new_Point_def new_DrawingHelper_def)
  have o: "outputPrecision (loadCurveGroups
        [\<lparr>sg_id = ''a'', sg_points = [\<lparr>pt_x = 0, pt_y = 0\<rparr>, \<lparr>pt_x = 10, pt_y = 20\<rparr>],
          sg_controls = []\<rparr>] new_DrawingHelper) = 2"
    by (simp add: loadCurveGroups_def alloc_def new_DrawingHelper_def)
  show "getSVGString (\<lambda>x. [])
     (loadCurveGroups
        [\<lparr>sg_id = ''a'', sg_points = [\<lparr>pt_x = 0, pt_y = 0\<rparr>, \<lparr>pt_x = 10, pt_y = 20\<rparr>],
          sg_controls = []\<rparr>] new_DrawingHelper) = Inl TypeError"
    by (simp add: getSVGString_def l o groupPath_def getSVGCoords_def toFixed_def
        digits.simps digit_def pathCommands.simps Let_def)
qed


section \<open>Saving and loading\<close>

lemma getSaveData_threshold:
  "getSaveData this = (if length (data this) < 4000000000000 then data this else [])"
proof -
  have "real (length (data this)) / 1000000 < 4000000 \<longleftrightarrow>
      real (length (data this)) < 4000000000000"
    by (simp add: field_simps)
  also have "\<dots> \<longleftrightarrow> length (data this) < 4000000000000"
    by linarith
  finally show ?thesis by (simp add: getSaveData_def Let_def)
qed

text \<open>
  C4 at a payload of 4,000,000 bytes: its size in megabytes, 4, is compared with
  4,000,000, so \<open>getSaveData\<close> returns the payload and the snapshot carries it; the
  payload is left out only from 4,000,000,000,000 bytes on.
\<close>

theorem getSaveData_keeps_four_million_bytes:
  "length (data (setData (replicate 4000000 (CHR ''A'')) new_ReferenceImage)) = 4000000 \<and>
   getSaveData (setData (replicate 4000000 (CHR ''A'')) new_ReferenceImage) =
     replicate 4000000 (CHR ''A'') \<and>
   getSaveData (setData (replicate 4000000 (CHR ''A'')) new_ReferenceImage) \<noteq> [] \<and>
   map_option sr_data (s_reference (stateSnapshot 0
      (setReferenceData (replicate 4000000 (CHR ''A'')) new_DrawingHelper))) =
     Some (replicate 4000000 (CHR ''A''))"
  by (simp add: getSaveData_threshold setData_def stateSnapshot_def setReferenceData_def
      new_DrawingHelper_def)

lemma setProperty_halves:
  "pointRangeHalf (setProperty p h) = pointRangeHalf h"
  "pointSizeHalf (setProperty p h) = pointSizeHalf h"
  by (cases p; simp)+

lemma loadGroups_halves:
  "pointRangeHalf (snd (loadGroups gs h)) = pointRangeHalf h"
  "pointSizeHalf (snd (loadGroups gs h)) = pointSizeHalf h"
  by (induction gs arbitrary: h; simp add: alloc_def Let_def case_prod_beta)+

lemma loadState_halves:
  "pointRangeHalf (loadState state h) = pointRangeHalf h"
  "pointSizeHalf (loadState state h) = pointSizeHalf h"
  by (simp_all add: loadState_def Let_def when_defined_field setProperty_halves
      loadReference_def loadCurveGroups_def case_prod_beta loadGroups_halves
      setActiveGroupId_def console_log_def split: option.splits)

lemma when_defined_case:
  "f (when_defined v g h) = (case v of None \<Rightarrow> f h | Some x \<Rightarrow> f (g x h))"
  by (cases v) (simp_all add: when_defined_def)

lemma loadGroups_old_heap:
  "r < next_ref h \<Longrightarrow> heap (snd (loadGroups gs h)) r = heap h r"
proof (induction gs arbitrary: h)
  case Nil
  then show ?case by simp
next
  case (Cons g gs)
  let ?h1 = "snd (alloc (groupInstance g) h)"
  have "r < next_ref ?h1" using Cons.prems by (simp add: alloc_def)
  then have "heap (snd (loadGroups gs ?h1)) r = heap ?h1 r" by (rule Cons.IH)
  then show ?case using Cons.prems by (simp add: alloc_def case_prod_beta)
qed

lemma loadGroups_instances:
  "map (heap (snd (loadGroups gs h))) (fst (loadGroups gs h)) = map groupInstance gs"
proof (induction gs arbitrary: h)
  case Nil
  then show ?case by simp
next
  case (Cons g gs)
  let ?h1 = "snd (alloc (groupInstance g) h)"
  have "next_ref h < next_ref ?h1" by (simp add: alloc_def)
  then have "heap (snd (loadGroups gs ?h1)) (next_ref h) = heap ?h1 (next_ref h)"
    by (rule loadGroups_old_heap)
  then show ?case using Cons.IH [of ?h1] by (simp add: alloc_def case_prod_beta)
qed

lemma Point_eta: "\<lparr>pt_x = pt_x p, pt_y = pt_y p\<rparr> = (p::Point)"
  by (cases p) simp

lemma Control_eta: "\<lparr>point1 = point1 c, point2 = point2 c\<rparr> = (c::Control)"
  by (cases c) simp

lemma groupInstance_groupData: "groupInstance (groupData g) = (g::CurveGroup)"
  by (cases g)
    (simp add: groupInstance_def groupData_def new_CurveGroup_def new_Point_def new_Control_def
      comp_def Point_eta Control_eta)

lemma groups_of_loadCurveGroups: "groups_of (loadCurveGroups gs h) = map groupInstance gs"
  by (simp add: groups_of_def loadCurveGroups_def case_prod_beta loadGroups_instances)

lemma setProperty_heap:
  "heap (setProperty p h) = heap h" "curveGroups (setProperty p h) = curveGroups h"
  by (cases p; simp)+

lemma groups_of_setActiveGroupId: "groups_of (setActiveGroupId i h) = groups_of h"
  by (simp add: groups_of_def setActiveGroupId_def console_log_def split: option.splits)

lemma groups_of_loadState:
  "groups_of (loadState state h) =
     (case s_curveGroups state of None \<Rightarrow> groups_of h | Some gs \<Rightarrow> map groupInstance gs)"
proof -
  let ?h1 = "when_defined (s_originPos state) (\<lambda>v h. h\<lparr>originPos := v\<rparr>) h"
  let ?h2 = "when_defined (s_curveGroups state) loadCurveGroups ?h1"
  let ?h3 = "when_defined (s_activeGroupId state) setActiveGroupId ?h2"
  have e: "heap (loadState state h) = heap ?h3" "curveGroups (loadState state h) = curveGroups ?h3"
    by (simp_all add: loadState_def Let_def when_defined_field setProperty_heap loadReference_def)
  have "groups_of (loadState state h) = groups_of ?h3"
    by (simp add: groups_of_def e)
  also have "\<dots> = groups_of ?h2"
    by (cases "s_activeGroupId state")
      (simp_all add: when_defined_None when_defined_Some groups_of_setActiveGroupId)
  also have "\<dots> = (case s_curveGroups state of None \<Rightarrow> groups_of ?h1
      | Some gs \<Rightarrow> map groupInstance gs)"
    by (cases "s_curveGroups state")
      (simp_all add: when_defined_None when_defined_Some groups_of_loadCurveGroups)
  also have "groups_of ?h1 = groups_of h"
    by (cases "s_originPos state") (simp_all add: when_defined_def groups_of_def)
  finally show ?thesis .
qed

lemma groups_of_round_trip:
  "groups_of (loadState (stateSnapshot now h) k) = groups_of h"
proof -
  have "s_curveGroups (stateSnapshot now h) = Some (map groupData (groups_of h))"
    by (simp add: stateSnapshot_def groups_of_def)
  then show ?thesis
    by (simp add: groups_of_loadState groupInstance_groupData comp_def)
qed

lemma loadGroups_field:
  assumes "\<And>g k. f (snd (alloc g k)) = f k"
  shows "f (snd (loadGroups gs h)) = f h"
  using assms by (induction gs arbitrary: h) (simp_all add: case_prod_beta)

lemma loadCurveGroups_field:
  assumes "\<And>g k. f (snd (alloc g k)) = f k" and "\<And>rs k. f (k\<lparr>curveGroups := rs\<rparr>) = f k"
  shows "f (loadCurveGroups gs h) = f h"
  using assms by (simp add: loadCurveGroups_def case_prod_beta loadGroups_field)

lemma setActiveGroupId_field:
  assumes "\<And>a k. f (k\<lparr>activeCurveGroup := a\<rparr>) = f k" and "\<And>c k. f (k\<lparr>console := c\<rparr>) = f k"
  shows "f (setActiveGroupId i h) = f h"
  using assms by (simp add: setActiveGroupId_def console_log_def split: option.splits)

lemma snapshot_fields:
  "s_originPos (stateSnapshot now h) = Some (originPos h)"
  "s_curveGroups (stateSnapshot now h) = Some (map groupData (groups_of h))"
  "s_activeGroupId (stateSnapshot now h) = map_option (\<lambda>a. gid (heap h a)) (activeCurveGroup h)"
  "s_reference (stateSnapshot now h) = Some
        \<lparr>sr_scale = scale (reference h), sr_offset = offset (reference h),
         sr_opacity = opacity (reference h), sr_color = color (reference h),
         sr_data = getSaveData (reference h)\<rparr>"
  "s_activeTool (stateSnapshot now h) = Some (activeTool h)"
  "s_lineWidth (stateSnapshot now h) = Some (lineWidth h)"
  "s_pointRange (stateSnapshot now h) = Some (pointRange h)"
  "s_pointSize (stateSnapshot now h) = Some (pointSize h)"
  "s_activeOpacity (stateSnapshot now h) = Some (activeOpacity h)"
  "s_inactiveOpacity (stateSnapshot now h) = Some (inactiveOpacity h)"
  "s_mainColor (stateSnapshot now h) = Some (mainColor h)"
  "s_controlColor (stateSnapshot now h) = Some (controlColor h)"
  "s_originColor (stateSnapshot now h) = Some (originColor h)"
  "s_outputPrecision (stateSnapshot now h) = Some (outputPrecision h)"
  by (simp_all add: stateSnapshot_def groups_of_def)

lemma round_trip_fields:
  "originPos (loadState (stateSnapshot now h) k) = originPos h"
  "activeTool (loadState (stateSnapshot now h) k) = activeTool h"
  "lineWidth (loadState (stateSnapshot now h) k) = lineWidth h"
  "pointRange (loadState (stateSnapshot now h) k) = pointRange h"
  "pointSize (loadState (stateSnapshot now h) k) = pointSize h"
  "activeOpacity (loadState (stateSnapshot now h) k) = activeOpacity h"
  "inactiveOpacity (loadState (stateSnapshot now h) k) = inactiveOpacity h"
  "mainColor (loadState (stateSnapshot now h) k) = mainColor h"
  "controlColor (loadState (stateSnapshot now h) k) = controlColor h"
  "originColor (loadState (stateSnapshot now h) k) = originColor h"
  "outputPrecision (loadState (stateSnapshot now h) k) = outputPrecision h"
  by (simp_all add: loadState_def Let_def snapshot_fields when_defined_Some when_defined_field
      loadReference_def loadCurveGroups_field setActiveGroupId_field alloc_def)

lemma round_trip_reference:
  "scale (reference (loadState (stateSnapshot now h) k)) = scale (reference h)"
  "offset (reference (loadState (stateSnapshot now h) k)) = offset (reference h)"
  "opacity (reference (loadState (stateSnapshot now h) k)) = opacity (reference h)"
  "color (reference (loadState (stateSnapshot now h) k)) = color (reference h)"
  "data (reference (loadState (stateSnapshot now h) k)) =
     (if getSaveData (reference h) \<noteq> [] then getSaveData (reference h) else data (reference k))"
  by (simp_all add: loadState_def Let_def snapshot_fields when_defined_Some when_defined_field
      loadReference_def loadCurveGroups_field setActiveGroupId_field alloc_def setData_def
      Point_eta)

text \<open>
  C2 at an editor with the pick range set to 32 (half-value 16), or the point size set
  to 24 (half-value 12), saved and loaded into a new editor: \<open>loadState\<close> restores the
  two fields through \<open>setProperty\<close>, and the half-values stay at the new editor's 8.
  The lemmas before show the rest of the round trip: groups, origin, tool, display
  fields and reference transform come back as saved.
\<close>

theorem load_after_save_keeps_default_halves:
  "pointRange (setPointRange 32 new_DrawingHelper) = 32 \<and>
   pointRangeHalf (setPointRange 32 new_DrawingHelper) = 16 \<and>
   pointRange (loadState (stateSnapshot 0 (setPointRange 32 new_DrawingHelper)) new_DrawingHelper) = 32 \<and>
   pointRangeHalf (loadState (stateSnapshot 0 (setPointRange 32 new_DrawingHelper)) new_DrawingHelper) = 8 \<and>
   pointSize (setPointSize 24 new_DrawingHelper) = 24 \<and>
   pointSizeHalf (setPointSize 24 new_DrawingHelper) = 12 \<and>
   pointSize (loadState (stateSnapshot 0 (setPointSize 24 new_DrawingHelper)) new_DrawingHelper) = 24 \<and>
   pointSizeHalf (loadState (stateSnapshot 0 (setPointSize 24 new_DrawingHelper)) new_DrawingHelper) = 8"
  by (simp add: round_trip_fields loadState_halves)
    (simp add: setPointRange_def setPointSize_def new_DrawingHelper_def)

section \<open>Well-formed states\<close>

text \<open>
  The new editor is well formed and every operation keeps a state so: the hypothesis of
  the theorem on \<open>createGroup\<close> holds in every state the editor reaches.
\<close>

lemma wf_state_iff:
  "wf_state h \<longleftrightarrow>
     (\<forall>r \<in> set (curveGroups h). r < next_ref h) \<and> distinct (curveGroups h) \<and>
     (\<forall>a. activeCurveGroup h = Some a \<longrightarrow> a < next_ref h)"
  by (simp add: wf_state_def list_all_iff split: option.splits)

lemma wf_new_DrawingHelper: "wf_state new_DrawingHelper"
  by (simp add: wf_state_def new_DrawingHelper_def)

lemma wf_fields:
  assumes "curveGroups k = curveGroups h" and "next_ref k = next_ref h"
    and "activeCurveGroup k = activeCurveGroup h"
  shows "wf_state k = wf_state h"
  using assms by (simp add: wf_state_iff)

lemma wf_setActiveGroupId: "wf_state h \<Longrightarrow> wf_state (setActiveGroupId i h)"
  by (auto simp: wf_state_iff setActiveGroupId_def console_log_def dest: find_Some_mem
      split: option.splits)

lemma wf_deleteGroup: "wf_state h \<Longrightarrow> wf_state (deleteGroup i h)"
  by (auto simp: wf_state_iff deleteGroup_def Let_def split: option.splits)

lemma loadGroups_refs:
  "(\<forall>r \<in> set (fst (loadGroups gs h)).
      next_ref h \<le> r \<and> r < next_ref (snd (loadGroups gs h))) \<and>
   distinct (fst (loadGroups gs h)) \<and> next_ref h \<le> next_ref (snd (loadGroups gs h))"
proof (induction gs arbitrary: h)
  case Nil
  then show ?case by simp
next
  case (Cons g gs)
  let ?h1 = "snd (alloc (groupInstance g) h)"
  have n: "next_ref ?h1 = Suc (next_ref h)" by (simp add: alloc_def)
  have f: "fst (loadGroups (g # gs) h) = next_ref h # fst (loadGroups gs ?h1)"
    and s: "snd (loadGroups (g # gs) h) = snd (loadGroups gs ?h1)"
    by (simp_all add: alloc_def case_prod_beta)
  from Cons.IH [of ?h1] show ?case
    unfolding f s n by fastforce
qed

lemma wf_loadCurveGroups: "wf_state h \<Longrightarrow> wf_state (loadCurveGroups gs h)"
proof -
  assume w: "wf_state h"
  have c: "curveGroups (loadCurveGroups gs h) = fst (loadGroups gs h)"
    and n: "next_ref (loadCurveGroups gs h) = next_ref (snd (loadGroups gs h))"
    and a: "activeCurveGroup (loadCurveGroups gs h) = activeCurveGroup h"
    by (simp_all add: loadCurveGroups_def case_prod_beta loadGroups_active)
  show ?thesis
    using w loadGroups_refs [of gs h]
    unfolding wf_state_iff c n a by fastforce
qed

lemma wf_deleteLastPoint: "wf_state (deleteLastPoint h) = wf_state h"
  by (rule wf_fields) (simp_all add: deleteLastPoint_def split: option.splits)

lemma wf_syncLastPoint: "wf_state (syncLastPoint h) = wf_state h"
  by (rule wf_fields) (simp_all add: syncLastPoint_def Let_def split: option.splits)

lemma wf_handleMouseMove: "wf_state (handleMouseMove x y rx ry h) = wf_state h"
  by (rule wf_fields) (simp_all add: handleMouseMove_def)

lemma wf_update: "wf_state (update h) = wf_state h"
  by (rule wf_fields) (simp_all add: update_fields update_def console_log_def split: option.splits)

lemma wf_setProperty: "wf_state (setProperty p h) = wf_state h"
  by (rule wf_fields) (cases p; simp)+

lemma wf_when_defined:
  assumes "wf_state h" and "\<And>x k. wf_state k \<Longrightarrow> wf_state (g x k)"
  shows "wf_state (when_defined v g h)"
  using assms by (cases v) (simp_all add: when_defined_def)

lemma wf_loadReference: "wf_state (loadReference r h) = wf_state h"
  by (rule wf_fields) (simp_all add: loadReference_def Let_def)

lemma wf_originPos_update: "wf_state (h\<lparr>originPos := v\<rparr>) = wf_state h"
  by (rule wf_fields) simp_all

lemma wf_activeTool_update: "wf_state (h\<lparr>activeTool := v\<rparr>) = wf_state h"
  by (rule wf_fields) simp_all

lemma wf_loadState: "wf_state h \<Longrightarrow> wf_state (loadState state h)"
  unfolding loadState_def Let_def
  by (intro wf_when_defined)
    (simp_all only: wf_loadCurveGroups wf_setActiveGroupId wf_setProperty wf_loadReference
      wf_originPos_update wf_activeTool_update)

lemma handleMouseDown_refs:
  "curveGroups (handleMouseDown h) = curveGroups h"
  "next_ref (handleMouseDown h) = next_ref h"
  "activeCurveGroup (handleMouseDown h) = activeCurveGroup h"
  by (cases "activeTool h";
      simp add: handleMouseDown_def Let_def reference_onMouseDown_def setMessage_def
        split: option.splits)+

lemma wf_handleMouseDown: "wf_state (handleMouseDown h) = wf_state h"
  by (rule wf_fields) (rule handleMouseDown_refs)+

lemma wf_applyEdits: "wf_state (applyEdits es h) = wf_state h"
proof (induction es arbitrary: h)
  case Nil
  then show ?case by simp
next
  case (Cons e es)
  then show ?case
    by (cases e) (simp_all add: wf_handleMouseDown wf_handleMouseMove wf_deleteLastPoint)
qed

end
